theory Spec2Isabelle
  imports Main
begin

section \<open>Source branch naming\<close>

text \<open>
  \<^verbatim>\<open>createMRSourceBranchName\<close> (and its older twin \<^verbatim>\<open>getMRSourceBranchName\<close>) build the
  name of the GitLab sync branch with the template literal
  \<^verbatim>\<open>`${githubProjectSubmoduleName}/${githubRepositoryBranch}`\<close>. Both arguments are strings
  of the command line.
\<close>

definition createMRSourceBranchName :: "string \<Rightarrow> string \<Rightarrow> string" where
  "createMRSourceBranchName githubProjectSubmoduleName githubRepositoryBranch =
     githubProjectSubmoduleName @ ''/'' @ githubRepositoryBranch"

definition getMRSourceBranchName :: "string \<Rightarrow> string \<Rightarrow> string" where
  "getMRSourceBranchName githubProjectSubmoduleName githubRepositoryBranch =
     githubProjectSubmoduleName @ ''/'' @ githubRepositoryBranch"

section \<open>JavaScript string operations used by the commands\<close>

text \<open>
  Strings are lists of characters. \<^verbatim>\<open>String.prototype.includes\<close> is substring search,
  written here as a scan that tries every start position.
\<close>

fun starts_with :: "string \<Rightarrow> string \<Rightarrow> bool" where
  "starts_with s [] = True"
| "starts_with [] (c # cs) = False"
| "starts_with (x # xs) (c # cs) = (x = c \<and> starts_with xs cs)"

fun js_includes :: "string \<Rightarrow> string \<Rightarrow> bool" where
  "js_includes [] sub = starts_with [] sub"
| "js_includes (x # xs) sub = (starts_with (x # xs) sub \<or> js_includes xs sub)"

text \<open>\<^verbatim>\<open>toLowerCase\<close>, on the letters A to Z; all other characters are kept.\<close>

definition lower_char :: "char \<Rightarrow> char" where
  "lower_char c =
     (let n = (of_char c :: nat) in if 65 \<le> n \<and> n \<le> 90 then char_of (n + 32) else c)"

definition toLowerCase :: "string \<Rightarrow> string" where
  "toLowerCase s = map lower_char s"

text \<open>
  \<^verbatim>\<open>parseBooleanEnvVar(value)\<close> is
  \<^verbatim>\<open>['true', '1'].includes(value?.toLowerCase() ?? '')\<close>; an unset variable is \<open>None\<close>.
\<close>

definition parseBooleanEnvVar :: "string option \<Rightarrow> bool" where
  "parseBooleanEnvVar v =
     (let s = (case v of None \<Rightarrow> [] | Some x \<Rightarrow> toLowerCase x) in s \<in> set [''true'', ''1''])"

text \<open>A value in single quotes, as the messages and titles of the commands write it.\<close>

definition quoted :: "string \<Rightarrow> string" where
  "quoted s = [CHR 0x27] @ s @ [CHR 0x27]"

text \<open>
  A template literal prints an \<^verbatim>\<open>undefined\<close> value as the word undefined; the optional
  \<^verbatim>\<open>githubRepositorySHA\<close> is the only such value the commands interpolate.
\<close>

definition template_of :: "string option \<Rightarrow> string" where
  "template_of v = (case v of None \<Rightarrow> ''undefined'' | Some s \<Rightarrow> s)"

section \<open>Data model\<close>

text \<open>\<^verbatim>\<open>BaseCommandOptions\<close>; \<^verbatim>\<open>gitlabOptions\<close> is flattened into host and token.\<close>

record command_options =
  gitlabProjectId :: string
  gitlabTargetBranch :: string
  githubRepositoryBranch :: string
  githubRepositorySHA :: "string option"
  githubProjectSubmoduleName :: string
  gitlabHost :: string
  gitlabToken :: string

text \<open>The fields of the REST payloads that the commands read.\<close>

record merge_request =
  iid :: nat
  has_conflicts :: bool
  sha :: string

record mr_diff =
  old_path :: string
  new_path :: string
  diff :: string

text \<open>
  The answer to a merge: its \<^verbatim>\<open>state\<close> and \<^verbatim>\<open>pipeline?.status\<close>, which is absent when the
  answer carries no pipeline.
\<close>

record merge_result =
  state :: string
  pipeline_status :: "string option"

record gitlab_user =
  username :: string
  email :: string

text \<open>
  The options object that \<^verbatim>\<open>syncBranch\<close> passes to both \<^verbatim>\<open>edit\<close> and \<^verbatim>\<open>create\<close>.
\<close>

record mr_options =
  removeSourceBranch :: bool
  title :: string
  description :: string

text \<open>
  The git client hands each operation a base directory: the workspace itself, or
  \<^verbatim>\<open>path.join(repoBaseDir, submoduleRelativePath)\<close>, kept unevaluated.
\<close>

datatype base_dir = RepoBaseDir string | PathJoin string string

text \<open>
  Every call that leaves the process (file system, git, GitLab REST), with its arguments. A
  run records the calls it issues in order, whether they succeed or not.
\<close>

datatype effect =
    MkdirSync string
  | ReaddirSync string
  | RmSync string
  | UsersShowCurrentUser
  | ProjectsShow string
  | GitClone base_dir string
  | GitAddConfig base_dir string string
  | GitFetch base_dir string
  | GitCheckoutBranch base_dir string string
  | GitLog base_dir string string
  | GitResetHard base_dir string
  | GitConfigSubmodulePath base_dir string
  | GitListRemoteHeads base_dir string
  | GitSubmoduleUpdateInit base_dir string
  | GitCheckout base_dir string
  | GitRevparseHead base_dir
  | GitAdd base_dir string
  | GitCommitNoVerify base_dir string
  | GitPushForce base_dir string
  | MergeRequestsAll string string string
  | MergeRequestsAllDiffs string nat
  | MergeRequestsMerge string nat bool string string
  | MergeRequestsEdit string nat mr_options
  | MergeRequestsCreate string string string string mr_options

text \<open>One constructor for each place where the source throws or lets a rejection through.\<close>

datatype error =
    GitlabRequestError
  | InvalidURL
  | TempDirNotEmpty
  | CloneFailure
  | UserEmailConfigFailure
  | UserNameConfigFailure
  | SourceFetchFailure
  | SourceCheckoutFailure
  | FallbackFetchFailure
  | FallbackCheckoutFailure
  | ValidateFetchFailure
  | LogFailure
  | InvalidLogComment
  | DriftDetected
  | ResetFailure
  | SubmodulePathFailure
  | SubmodulePathNotFound
  | ListRemoteFailure
  | SubmoduleInitFailure
  | SubmoduleFetchFailure
  | SubmoduleCheckoutBranchFailure
  | SubmoduleCheckoutSHAFailure
  | SubmoduleRevparseFailure
  | SubmoduleSHAMismatch
  | AddFailure
  | CommitFailure
  | PushFailure
  | MultipleOpenMRs
  | MRNotFound
  | MRHasConflicts
  | MRDiffMissingExpectedSHA
  | MergeNotCompleted string
  | MergeNotCompletedUnknownReason
  | MRNotCreated

section \<open>Runs: a trace of calls and a result\<close>

text \<open>
  An \<^verbatim>\<open>async\<close> function awaits its calls one after the other and stops at the first
  throw. A run is the list of calls issued so far together with the value returned or the
  error thrown.
\<close>

type_synonym 'a run = "effect list \<times> (error + 'a)"

definition ret :: "'a \<Rightarrow> 'a run" where
  "ret x = ([], Inr x)"

definition throw :: "error \<Rightarrow> 'a run" where
  "throw e = ([], Inl e)"

definition andThen :: "'a run \<Rightarrow> ('a \<Rightarrow> 'b run) \<Rightarrow> 'b run" where
  "andThen m f =
     (case snd m of
        Inl e \<Rightarrow> (fst m, Inl e)
      | Inr a \<Rightarrow> (fst m @ fst (f a), snd (f a)))"

text \<open>
  A call whose answer the environment gives: \<open>None\<close> is a rejected promise, which the
  source either rethrows under its own message (\<open>err\<close>) or lets through.
\<close>

definition call :: "effect \<Rightarrow> 'a option \<Rightarrow> error \<Rightarrow> 'a run" where
  "call eff answer err =
     ([eff], case answer of None \<Rightarrow> Inl err | Some a \<Rightarrow> Inr a)"

definition attempt :: "effect \<Rightarrow> bool \<Rightarrow> error \<Rightarrow> unit run" where
  "attempt eff ok err = ([eff], if ok then Inr () else Inl err)"

section \<open>The GitLab REST client, as the commands see it\<close>

text \<open>
  The REST client is an external collaborator. Each field is the answer the client gives to
  the one call of that kind a command issues in a run; \<open>None\<close> and \<open>False\<close> are
  rejected requests.
\<close>

record gitlab_api =
  Users_showCurrentUser :: "gitlab_user option"
  Projects_show :: "string option"
  MergeRequests_all :: "merge_request list option"
  MergeRequests_allDiffs :: "mr_diff list option"
  MergeRequests_merge :: "merge_result option"
  MergeRequests_edit :: bool
  MergeRequests_create :: "merge_request option"

text \<open>
  The process environment and the platform's \<^verbatim>\<open>URL\<close> class: \<open>URL_host u\<close> is
  \<^verbatim>\<open>new URL(u).host\<close> and \<open>URL_toString u\<close> is \<^verbatim>\<open>new URL(u).toString()\<close>, both
  \<open>None\<close> where the constructor throws.
\<close>

record process_env =
  GITLAB_MERGE_WHEN_PIPELINE_SUCCEEDS :: "string option"
  GITHUB_PR_URL :: "string option"
  URL_host :: "string \<Rightarrow> string option"
  URL_toString :: "string \<Rightarrow> string option"

section \<open>merge-mr\<close>

text \<open>
  The test of \<^verbatim>\<open>diffs.some(...)\<close>: both paths are the literal \<^verbatim>\<open>monite-sdk\<close> and the diff
  text includes the added pointer line, newline included.
\<close>

definition diff_has_submodule_sha :: "string option \<Rightarrow> mr_diff \<Rightarrow> bool" where
  "diff_has_submodule_sha expectedSHA d =
     (new_path d = ''monite-sdk'' \<and> old_path d = ''monite-sdk''
      \<and> js_includes (diff d)
           (''+Subproject commit '' @ template_of expectedSHA @ [CHR 0x0A]))"

definition mergeCommitMessage :: "command_options \<Rightarrow> string" where
  "mergeCommitMessage opts =
     ''Merge branch '' @ quoted (githubRepositoryBranch opts) @ '' into ''
       @ quoted (gitlabTargetBranch opts) @ '' with '' @ quoted ''monite-sdk''
       @ '' submodule commit '' @ quoted (template_of (githubRepositorySHA opts))
       @ [CHR 0x0A] @ [CHR 0x0A]
       @ ''* This MR was merged automatically by the Monite GitHub Action.''"

text \<open>The classification of the merge answer, the last lines of \<^verbatim>\<open>mergeMr\<close>.\<close>

definition merge_outcome :: "merge_result \<Rightarrow> unit run" where
  "merge_outcome result =
     (if state result = ''merged'' then ret ()
      else
        (let pipelineStatus = pipeline_status result in
         if pipelineStatus = Some ''canceled'' \<or> pipelineStatus = Some ''failed''
         then throw (MergeNotCompleted (template_of pipelineStatus))
         else if pipelineStatus = Some ''success'' then throw MergeNotCompletedUnknownReason
         else ret ()))"

definition mergeMr :: "command_options \<Rightarrow> process_env \<Rightarrow> gitlab_api \<Rightarrow> unit run" where
  "mergeMr opts penv gitlab =
     (let gitlabSourceBranch =
            createMRSourceBranchName (githubProjectSubmoduleName opts)
              (githubRepositoryBranch opts)
      in
      andThen
        (call (MergeRequestsAll (gitlabProjectId opts) (gitlabTargetBranch opts)
                 gitlabSourceBranch)
           (MergeRequests_all gitlab) GitlabRequestError)
        (\<lambda>mrs.
           if tl mrs \<noteq> [] then throw MultipleOpenMRs
           else
             (case mrs of
                [] \<Rightarrow> throw MRNotFound
              | mr # mrsRest \<Rightarrow>
                  if has_conflicts mr then throw MRHasConflicts
                  else
                    andThen
                      (call (MergeRequestsAllDiffs (gitlabProjectId opts) (iid mr))
                         (MergeRequests_allDiffs gitlab) GitlabRequestError)
                      (\<lambda>diffs.
                         if \<not> list_ex (diff_has_submodule_sha (githubRepositorySHA opts)) diffs
                         then throw MRDiffMissingExpectedSHA
                         else
                           andThen
                             (call
                                (MergeRequestsMerge (gitlabProjectId opts) (iid mr)
                                   (parseBooleanEnvVar
                                      (GITLAB_MERGE_WHEN_PIPELINE_SUCCEEDS penv))
                                   (sha mr) (mergeCommitMessage opts))
                                (MergeRequests_merge gitlab) GitlabRequestError)
                             merge_outcome))))"

section \<open>The ephemeral workspace\<close>

text \<open>
  \<^verbatim>\<open>TempDir\<close>: the constructor computes the path
  \<^verbatim>\<open>path.join(TMP_GITLAB_REPOSITORY_WORKING_DIR ?? os.tmpdir(), `gitlab-sync-${Date.now()}`)\<close>
  (here the field \<open>TempDir_path\<close>), creates the directory, and throws when
  \<^verbatim>\<open>readdirSync\<close> finds entries in it. \<^verbatim>\<open>[Symbol.dispose]\<close> removes it. The three
  file-system calls themselves are taken to succeed.
\<close>

record fs_env =
  TempDir_path :: string
  readdir_length :: nat

definition TempDir_new :: "fs_env \<Rightarrow> string run" where
  "TempDir_new fs =
     andThen ([MkdirSync (TempDir_path fs)], Inr ())
       (\<lambda>_. andThen ([ReaddirSync (TempDir_path fs)], Inr (readdir_length fs))
          (\<lambda>n. if n > 0 then throw TempDirNotEmpty else ret (TempDir_path fs)))"

definition TempDir_dispose :: "string \<Rightarrow> effect list" where
  "TempDir_dispose path = [RmSync path]"

text \<open>
  \<^verbatim>\<open>using repositoryTempDir = new TempDir()\<close>: when the constructor throws nothing is
  bound and nothing is disposed; otherwise the body runs and the disposer runs after it,
  whether the body returned or threw.
\<close>

definition using_TempDir :: "fs_env \<Rightarrow> (string \<Rightarrow> 'a run) \<Rightarrow> 'a run" where
  "using_TempDir fs body =
     andThen (TempDir_new fs)
       (\<lambda>path. (fst (body path) @ TempDir_dispose path, snd (body path)))"

section \<open>The git client, as upsertBranch sees it\<close>

text \<open>
  An entry of \<^verbatim>\<open>log.all\<close>: a string, or an object whose \<^verbatim>\<open>message\<close> is a string
  (\<open>Some\<close>) or something else (\<open>None\<close>).
\<close>

datatype log_item = LogString string | LogObject "string option"

text \<open>
  The answers of the git client to the operations of one run, in the order the run issues
  them; \<open>False\<close> and \<open>None\<close> are rejected operations.
\<close>

record git_answers =
  git_clone :: bool
  git_addConfig_email :: bool
  git_addConfig_name :: bool
  git_fetch_source :: bool
  git_checkoutBranch_source :: bool
  git_fallback_fetch_target :: bool
  git_fallback_checkoutBranch_target :: bool
  git_validate_fetch_target :: bool
  git_log :: "log_item list option"
  git_reset_hard :: bool
  git_pin_submodule_path :: "string option"
  git_listRemote_heads :: "string option"
  git_submoduleUpdate_init :: bool
  git_submodule_fetch :: bool
  git_submodule_checkoutBranch :: bool
  git_submodule_checkout :: bool
  git_submodule_revparse_HEAD :: "string option"
  git_commit_submodule_path :: "string option"
  git_add :: bool
  git_commit :: bool
  git_push :: bool

section \<open>Regular expression tests of the provenance check\<close>

text \<open>
  The word characters of \<^verbatim>\<open>\b\<close> (no \<^verbatim>\<open>u\<close> or \<^verbatim>\<open>i\<close> flag): digits, letters and the
  underscore. There is a word boundary between two neighbours, either of which may be
  missing at the ends of the string, when exactly one of them is a word character.
\<close>

definition is_word_char :: "char \<Rightarrow> bool" where
  "is_word_char c =
     (let n = (of_char c :: nat)
      in (48 \<le> n \<and> n \<le> 57) \<or> (65 \<le> n \<and> n \<le> 90) \<or> n = 95 \<or> (97 \<le> n \<and> n \<le> 122))"

definition is_word :: "char option \<Rightarrow> bool" where
  "is_word c = (case c of None \<Rightarrow> False | Some x \<Rightarrow> is_word_char x)"

definition word_boundary :: "char option \<Rightarrow> char option \<Rightarrow> bool" where
  "word_boundary left right = (is_word left \<noteq> is_word right)"

definition first_char :: "string \<Rightarrow> char option" where
  "first_char s = (case s of [] \<Rightarrow> None | c # cs \<Rightarrow> Some c)"

text \<open>
  A salt is literal when none of its characters is a metacharacter of the pattern
  language; then \<^verbatim>\<open>new RegExp(`\\b${salt}\\b`)\<close> matches exactly the occurrences of the
  salt that have a word boundary on both sides. The default salt is literal.
\<close>

definition regexp_literal :: "string \<Rightarrow> bool" where
  "regexp_literal salt = list_all (\<lambda>c. c \<notin> set (CHR 0x5C # ''^$.|?*+()[]{}/'')) salt"

text \<open>
  The pattern matched at one position: \<open>left\<close> is the character left of the position,
  \<open>s\<close> the text from there on.
\<close>

definition word_bounded_match_here :: "string \<Rightarrow> char option \<Rightarrow> string \<Rightarrow> bool" where
  "word_bounded_match_here salt left s =
     (word_boundary left (first_char s)
      \<and> starts_with s salt
      \<and> word_boundary (if salt = [] then left else Some (last salt))
            (first_char (drop (length salt) s)))"

text \<open>\<^verbatim>\<open>RegExp.prototype.test\<close>: the pattern is tried at every position, left to right.\<close>

fun word_bounded_test_from :: "string \<Rightarrow> char option \<Rightarrow> string \<Rightarrow> bool" where
  "word_bounded_test_from salt left [] = word_bounded_match_here salt left []"
| "word_bounded_test_from salt left (c # cs) =
     (word_bounded_match_here salt left (c # cs) \<or> word_bounded_test_from salt (Some c) cs)"

definition word_bounded_test :: "string \<Rightarrow> string \<Rightarrow> bool" where
  "word_bounded_test salt logComment = word_bounded_test_from salt None logComment"

text \<open>
  The callback of \<^verbatim>\<open>log.all.some\<close> in the newer \<^verbatim>\<open>validateIsSubmoduleSyncBranch\<close>: it
  reads the comment of each entry, throws when that is not a string, and is true on the
  first comment the pattern does not match, where \<^verbatim>\<open>some\<close> stops.
\<close>

definition logComment_of :: "log_item \<Rightarrow> string option" where
  "logComment_of logItem = (case logItem of LogString s \<Rightarrow> Some s | LogObject m \<Rightarrow> m)"

fun some_without_salt :: "string \<Rightarrow> log_item list \<Rightarrow> error + bool" where
  "some_without_salt salt [] = Inr False"
| "some_without_salt salt (logItem # rest) =
     (case logComment_of logItem of
        None \<Rightarrow> Inl InvalidLogComment
      | Some logComment \<Rightarrow>
          if \<not> word_bounded_test salt logComment then Inr True
          else some_without_salt salt rest)"

text \<open>
  The older \<^verbatim>\<open>validateIsSubmoduleSyncBranch\<close> builds its pattern with
  \<^verbatim>\<open>new RegExp(`\b${commitMessageSalt}\b`)\<close>: in a template literal \<^verbatim>\<open>\b\<close> is the
  backspace character, so for a literal salt the pattern is the salt between two
  backspaces. \<^verbatim>\<open>test\<close> converts its argument to a string, and the callback is not negated.
\<close>

definition js_String :: "log_item \<Rightarrow> string" where
  "js_String logItem =
     (case logItem of LogString s \<Rightarrow> s | LogObject m \<Rightarrow> ''[object Object]'')"

definition backspace_test :: "string \<Rightarrow> string \<Rightarrow> bool" where
  "backspace_test salt s = js_includes s ([CHR 0x08] @ salt @ [CHR 0x08])"

section \<open>upsertBranch\<close>

text \<open>
  \<^verbatim>\<open>promise.catch(async () => fallback)\<close>: the fallback runs only when the promise
  rejected, and its outcome replaces the rejection.
\<close>

definition orElse :: "'a run \<Rightarrow> 'a run \<Rightarrow> 'a run" where
  "orElse m fallback =
     (case snd m of
        Inl e \<Rightarrow> (fst m @ fst fallback, snd fallback)
      | Inr a \<Rightarrow> m)"

definition cloneGitlabRepo ::
  "string \<Rightarrow> command_options \<Rightarrow> process_env \<Rightarrow> git_answers \<Rightarrow> gitlab_api \<Rightarrow> unit run" where
  "cloneGitlabRepo repoBaseDir opts penv git gitlab =
     andThen (call UsersShowCurrentUser (Users_showCurrentUser gitlab) GitlabRequestError)
       (\<lambda>userData.
     andThen (call (ProjectsShow (gitlabProjectId opts)) (Projects_show gitlab)
                GitlabRequestError)
       (\<lambda>projectPath.
     (case URL_host penv (gitlabHost opts) of
        None \<Rightarrow> throw InvalidURL
      | Some host \<Rightarrow>
     andThen
       (attempt
          (GitClone (RepoBaseDir repoBaseDir)
             (''https://'' @ username userData @ '':'' @ gitlabToken opts @ ''@'' @ host
                @ ''/'' @ projectPath @ ''.git''))
          (git_clone git) CloneFailure)
       (\<lambda>_.
     andThen
       (attempt (GitAddConfig (RepoBaseDir repoBaseDir) ''user.email'' (email userData))
          (git_addConfig_email git) UserEmailConfigFailure)
       (\<lambda>_.
     attempt (GitAddConfig (RepoBaseDir repoBaseDir) ''user.name'' (username userData))
       (git_addConfig_name git) UserNameConfigFailure)))))"

definition checkoutGitlabSourceBranch ::
  "string \<Rightarrow> command_options \<Rightarrow> string \<Rightarrow> git_answers \<Rightarrow> unit run" where
  "checkoutGitlabSourceBranch repoBaseDir opts gitlabSourceBranch git =
     orElse
       (andThen
          (attempt (GitFetch (RepoBaseDir repoBaseDir) gitlabSourceBranch)
             (git_fetch_source git) SourceFetchFailure)
          (\<lambda>_.
             attempt
               (GitCheckoutBranch (RepoBaseDir repoBaseDir) gitlabSourceBranch
                  (''origin/'' @ gitlabSourceBranch))
               (git_checkoutBranch_source git) SourceCheckoutFailure))
       (andThen
          (attempt (GitFetch (RepoBaseDir repoBaseDir) (gitlabTargetBranch opts))
             (git_fallback_fetch_target git) FallbackFetchFailure)
          (\<lambda>_.
             attempt
               (GitCheckoutBranch (RepoBaseDir repoBaseDir) gitlabSourceBranch
                  (''origin/'' @ gitlabTargetBranch opts))
               (git_fallback_checkoutBranch_target git) FallbackCheckoutFailure))"

text \<open>The newer \<^verbatim>\<open>validateIsSubmoduleSyncBranch\<close>, the one with the per-entry type check.\<close>

definition validateIsSubmoduleSyncBranch ::
  "string \<Rightarrow> command_options \<Rightarrow> string \<Rightarrow> string \<Rightarrow> git_answers \<Rightarrow> unit run" where
  "validateIsSubmoduleSyncBranch repoBaseDir opts gitlabSourceBranch commitMessageSalt git =
     andThen
       (attempt (GitFetch (RepoBaseDir repoBaseDir) (gitlabTargetBranch opts))
          (git_validate_fetch_target git) ValidateFetchFailure)
       (\<lambda>_.
     andThen
       (call
          (GitLog (RepoBaseDir repoBaseDir) (''origin/'' @ gitlabTargetBranch opts)
             gitlabSourceBranch)
          (git_log git) LogFailure)
       (\<lambda>log_all.
          (case some_without_salt commitMessageSalt log_all of
             Inl e \<Rightarrow> throw e
           | Inr found \<Rightarrow> if found then throw DriftDetected else ret ())))"

text \<open>
  The older \<^verbatim>\<open>validateIsSubmoduleSyncBranch\<close>: it throws when some entry matches its
  pattern.
\<close>

definition validateIsSubmoduleSyncBranch_older ::
  "string \<Rightarrow> command_options \<Rightarrow> string \<Rightarrow> string \<Rightarrow> git_answers \<Rightarrow> unit run" where
  "validateIsSubmoduleSyncBranch_older repoBaseDir opts gitlabSourceBranch commitMessageSalt git =
     andThen
       (attempt (GitFetch (RepoBaseDir repoBaseDir) (gitlabTargetBranch opts))
          (git_validate_fetch_target git) ValidateFetchFailure)
       (\<lambda>_.
     andThen
       (call
          (GitLog (RepoBaseDir repoBaseDir) (''origin/'' @ gitlabTargetBranch opts)
             gitlabSourceBranch)
          (git_log git) LogFailure)
       (\<lambda>log_all.
          if list_ex (\<lambda>logItem. backspace_test commitMessageSalt (js_String logItem)) log_all
          then throw DriftDetected else ret ()))"

definition resetGitlabRepoBranch ::
  "string \<Rightarrow> command_options \<Rightarrow> string \<Rightarrow> string \<Rightarrow> git_answers \<Rightarrow> unit run" where
  "resetGitlabRepoBranch repoBaseDir opts gitlabSourceBranch commitMessageSalt git =
     andThen
       (validateIsSubmoduleSyncBranch repoBaseDir opts gitlabSourceBranch commitMessageSalt git)
       (\<lambda>_.
          attempt (GitResetHard (RepoBaseDir repoBaseDir) (''origin/'' @ gitlabTargetBranch opts))
            (git_reset_hard git) ResetFailure)"

text \<open>
  White space of \<^verbatim>\<open>trim\<close> and \<^verbatim>\<open>\s\<close> among the characters below 256: tab, line feed,
  vertical tab, form feed, carriage return, space and the no-break space.
\<close>

definition is_whitespace :: "char \<Rightarrow> bool" where
  "is_whitespace c = ((of_char c :: nat) \<in> set [9, 10, 11, 12, 13, 32, 160])"

definition trim :: "string \<Rightarrow> string" where
  "trim s = rev (dropWhile is_whitespace (rev (dropWhile is_whitespace s)))"

definition getSubmodulePath ::
  "string \<Rightarrow> command_options \<Rightarrow> string option \<Rightarrow> string run" where
  "getSubmodulePath repoBaseDir opts answer =
     andThen
       (call (GitConfigSubmodulePath (RepoBaseDir repoBaseDir) (githubProjectSubmoduleName opts))
          answer SubmodulePathFailure)
       (\<lambda>res.
          (let submodulePath = trim res
           in if submodulePath = [] then throw SubmodulePathNotFound else ret submodulePath))"

text \<open>\<^verbatim>\<open>result.split(/\s+/)[0]\<close>: the text before the first white space.\<close>

definition getRepoBranchHeadSHA :: "base_dir \<Rightarrow> string \<Rightarrow> git_answers \<Rightarrow> string run" where
  "getRepoBranchHeadSHA baseDir branch git =
     andThen (call (GitListRemoteHeads baseDir branch) (git_listRemote_heads git) ListRemoteFailure)
       (\<lambda>result. ret (takeWhile (\<lambda>c. \<not> is_whitespace c) result))"

definition checkoutSubmoduleBranch ::
  "string \<Rightarrow> command_options \<Rightarrow> git_answers \<Rightarrow> unit run" where
  "checkoutSubmoduleBranch repoBaseDir opts git =
     andThen (getSubmodulePath repoBaseDir opts (git_pin_submodule_path git))
       (\<lambda>submoduleRelativePath.
     (let submoduleBaseDir = PathJoin repoBaseDir submoduleRelativePath in
     andThen
       (case githubRepositorySHA opts of
          None \<Rightarrow> getRepoBranchHeadSHA submoduleBaseDir (githubRepositoryBranch opts) git
        | Some s \<Rightarrow>
            if s \<noteq> [] then ret s
            else getRepoBranchHeadSHA submoduleBaseDir (githubRepositoryBranch opts) git)
       (\<lambda>submoduleBranchHeadSHA.
     andThen
       (attempt
          (GitSubmoduleUpdateInit (RepoBaseDir repoBaseDir) (githubProjectSubmoduleName opts))
          (git_submoduleUpdate_init git) SubmoduleInitFailure)
       (\<lambda>_.
     andThen
       (attempt (GitFetch submoduleBaseDir (githubRepositoryBranch opts))
          (git_submodule_fetch git) SubmoduleFetchFailure)
       (\<lambda>_.
     andThen
       (attempt
          (GitCheckoutBranch submoduleBaseDir (githubRepositoryBranch opts)
             (''origin/'' @ githubRepositoryBranch opts))
          (git_submodule_checkoutBranch git) SubmoduleCheckoutBranchFailure)
       (\<lambda>_.
     andThen
       (attempt (GitCheckout submoduleBaseDir submoduleBranchHeadSHA)
          (git_submodule_checkout git) SubmoduleCheckoutSHAFailure)
       (\<lambda>_.
     andThen
       (call (GitRevparseHead submoduleBaseDir) (git_submodule_revparse_HEAD git)
          SubmoduleRevparseFailure)
       (\<lambda>branchHeadSHA.
          if branchHeadSHA \<noteq> submoduleBranchHeadSHA then throw SubmoduleSHAMismatch
          else ret ()))))))))"

definition commitMessage :: "command_options \<Rightarrow> string \<Rightarrow> string" where
  "commitMessage opts commitMessageSalt =
     ''chore: update '' @ quoted (githubProjectSubmoduleName opts) @ '' submodule to ''
       @ quoted (githubRepositoryBranch opts) @ '' `'' @ commitMessageSalt @ ''`''"

definition commitGitlabRepoChanges ::
  "string \<Rightarrow> command_options \<Rightarrow> string \<Rightarrow> git_answers \<Rightarrow> unit run" where
  "commitGitlabRepoChanges repoBaseDir opts commitMessageSalt git =
     andThen (getSubmodulePath repoBaseDir opts (git_commit_submodule_path git))
       (\<lambda>submodulePath.
     andThen (attempt (GitAdd (RepoBaseDir repoBaseDir) submodulePath) (git_add git) AddFailure)
       (\<lambda>_.
     attempt (GitCommitNoVerify (RepoBaseDir repoBaseDir) (commitMessage opts commitMessageSalt))
       (git_commit git) CommitFailure))"

definition pushGitlabRepoChanges :: "string \<Rightarrow> string \<Rightarrow> git_answers \<Rightarrow> unit run" where
  "pushGitlabRepoChanges repoBaseDir gitlabSourceBranch git =
     attempt (GitPushForce (RepoBaseDir repoBaseDir) gitlabSourceBranch) (git_push git)
       PushFailure"

text \<open>The body of \<^verbatim>\<open>upsertBranch\<close> after the workspace is bound.\<close>

definition upsertBranch_body ::
  "command_options \<Rightarrow> string \<Rightarrow> string \<Rightarrow> process_env \<Rightarrow> git_answers \<Rightarrow> gitlab_api
    \<Rightarrow> string \<Rightarrow> unit run" where
  "upsertBranch_body opts gitlabSourceBranch commitMessageSalt penv git gitlab repoBaseDir =
     andThen (cloneGitlabRepo repoBaseDir opts penv git gitlab)
       (\<lambda>_.
     andThen (checkoutGitlabSourceBranch repoBaseDir opts gitlabSourceBranch git)
       (\<lambda>_.
     andThen (resetGitlabRepoBranch repoBaseDir opts gitlabSourceBranch commitMessageSalt git)
       (\<lambda>_.
     andThen (checkoutSubmoduleBranch repoBaseDir opts git)
       (\<lambda>_.
     andThen (commitGitlabRepoChanges repoBaseDir opts commitMessageSalt git)
       (\<lambda>_.
     pushGitlabRepoChanges repoBaseDir gitlabSourceBranch git)))))"

definition upsertBranch ::
  "command_options \<Rightarrow> string \<Rightarrow> string \<Rightarrow> process_env \<Rightarrow> fs_env \<Rightarrow> git_answers
    \<Rightarrow> gitlab_api \<Rightarrow> unit run" where
  "upsertBranch opts gitlabSourceBranch commitMessageSalt penv fs git gitlab =
     using_TempDir fs
       (upsertBranch_body opts gitlabSourceBranch commitMessageSalt penv git gitlab)"

text \<open>
  The older copy of the file has the same \<^verbatim>\<open>resetGitlabRepoBranch\<close> and
  \<^verbatim>\<open>upsertBranch\<close>, on top of its own provenance check.
\<close>

definition resetGitlabRepoBranch_older ::
  "string \<Rightarrow> command_options \<Rightarrow> string \<Rightarrow> string \<Rightarrow> git_answers \<Rightarrow> unit run" where
  "resetGitlabRepoBranch_older repoBaseDir opts gitlabSourceBranch commitMessageSalt git =
     andThen
       (validateIsSubmoduleSyncBranch_older repoBaseDir opts gitlabSourceBranch commitMessageSalt
          git)
       (\<lambda>_.
          attempt (GitResetHard (RepoBaseDir repoBaseDir) (''origin/'' @ gitlabTargetBranch opts))
            (git_reset_hard git) ResetFailure)"

definition upsertBranch_body_older ::
  "command_options \<Rightarrow> string \<Rightarrow> string \<Rightarrow> process_env \<Rightarrow> git_answers \<Rightarrow> gitlab_api
    \<Rightarrow> string \<Rightarrow> unit run" where
  "upsertBranch_body_older opts gitlabSourceBranch commitMessageSalt penv git gitlab repoBaseDir =
     andThen (cloneGitlabRepo repoBaseDir opts penv git gitlab)
       (\<lambda>_.
     andThen (checkoutGitlabSourceBranch repoBaseDir opts gitlabSourceBranch git)
       (\<lambda>_.
     andThen
       (resetGitlabRepoBranch_older repoBaseDir opts gitlabSourceBranch commitMessageSalt git)
       (\<lambda>_.
     andThen (checkoutSubmoduleBranch repoBaseDir opts git)
       (\<lambda>_.
     andThen (commitGitlabRepoChanges repoBaseDir opts commitMessageSalt git)
       (\<lambda>_.
     pushGitlabRepoChanges repoBaseDir gitlabSourceBranch git)))))"

definition upsertBranch_older ::
  "command_options \<Rightarrow> string \<Rightarrow> string \<Rightarrow> process_env \<Rightarrow> fs_env \<Rightarrow> git_answers
    \<Rightarrow> gitlab_api \<Rightarrow> unit run" where
  "upsertBranch_older opts gitlabSourceBranch commitMessageSalt penv fs git gitlab =
     using_TempDir fs
       (upsertBranch_body_older opts gitlabSourceBranch commitMessageSalt penv git gitlab)"

text \<open>The default value of the parameter \<^verbatim>\<open>commitMessageSalt\<close>.\<close>

definition default_commitMessageSalt :: string where
  "default_commitMessageSalt = ''submodule-auto-sync''"

section \<open>sync-branch\<close>

text \<open>\<^verbatim>\<open>/\d+$/.test(s)\<close>: the string ends in a digit.\<close>

definition ends_with_digit :: "string \<Rightarrow> bool" where
  "ends_with_digit s =
     (s \<noteq> [] \<and> (let n = (of_char (last s) :: nat) in 48 \<le> n \<and> n \<le> 57))"

text \<open>
  \<^verbatim>\<open>getGithubPullRequestUrl\<close>: an unset or empty variable gives no URL, a URL the
  constructor rejects is caught and gives none, and so does one that does not end in a digit.
\<close>

definition getGithubPullRequestUrl :: "process_env \<Rightarrow> string option" where
  "getGithubPullRequestUrl penv =
     (case GITHUB_PR_URL penv of
        None \<Rightarrow> None
      | Some u \<Rightarrow>
          if u = [] then None
          else
            (case URL_toString penv u of
               None \<Rightarrow> None
             | Some prUrl \<Rightarrow> if ends_with_digit prUrl then Some prUrl else None))"

definition createGitlabMergeRequestInfo :: "command_options \<Rightarrow> process_env \<Rightarrow> string \<times> string" where
  "createGitlabMergeRequestInfo opts penv =
     (let submoduleBranchNameMarkdown =
            (case getGithubPullRequestUrl penv of
               Some githubPullRequestUrl \<Rightarrow>
                 ''[`'' @ githubRepositoryBranch opts @ ''`]('' @ githubPullRequestUrl @ '')''
             | None \<Rightarrow> ''`'' @ githubRepositoryBranch opts @ ''`'')
      in
      (''chore('' @ githubProjectSubmoduleName opts @ ''): update submodule to ''
         @ quoted (githubRepositoryBranch opts),
       ''This MR updates the `'' @ githubProjectSubmoduleName opts
         @ ''` submodule to the SHA commit `'' @ template_of (githubRepositorySHA opts)
         @ ''` on the '' @ submoduleBranchNameMarkdown @ '' branch.''))"

text \<open>
  \<^verbatim>\<open>const options = { removeSourceBranch: true, ...createGitlabMergeRequestInfo(...) }\<close>.
\<close>

definition mergeRequestOptions :: "command_options \<Rightarrow> process_env \<Rightarrow> mr_options" where
  "mergeRequestOptions opts penv =
     \<lparr>removeSourceBranch = True, title = fst (createGitlabMergeRequestInfo opts penv),
      description = snd (createGitlabMergeRequestInfo opts penv)\<rparr>"

definition syncBranch ::
  "command_options \<Rightarrow> process_env \<Rightarrow> fs_env \<Rightarrow> git_answers \<Rightarrow> gitlab_api \<Rightarrow> unit run" where
  "syncBranch opts penv fs git gitlab =
     (let gitlabSourceBranch =
            createMRSourceBranchName (githubProjectSubmoduleName opts)
              (githubRepositoryBranch opts)
      in
      andThen (upsertBranch opts gitlabSourceBranch default_commitMessageSalt penv fs git gitlab)
        (\<lambda>_.
      andThen
        (call (MergeRequestsAll (gitlabProjectId opts) (gitlabTargetBranch opts)
                 gitlabSourceBranch)
           (MergeRequests_all gitlab) GitlabRequestError)
        (\<lambda>mrs.
           if tl mrs \<noteq> [] then throw MultipleOpenMRs
           else
             (let options = mergeRequestOptions opts penv
              in
              (case mrs of
                 existingMr # mrsRest \<Rightarrow>
                   andThen
                     (attempt (MergeRequestsEdit (gitlabProjectId opts) (iid existingMr) options)
                        (MergeRequests_edit gitlab) GitlabRequestError)
                     (\<lambda>_. ret ())
               | [] \<Rightarrow>
                   andThen
                     (call
                        (MergeRequestsCreate (gitlabProjectId opts) gitlabSourceBranch
                           (gitlabTargetBranch opts) (title options) options)
                        (MergeRequests_create gitlab) GitlabRequestError)
                     (\<lambda>newMr. if iid newMr = 0 then throw MRNotCreated else ret ()))))))"

section \<open>What a trace did\<close>

text \<open>The destructive git operations of a reconciliation: the hard reset and the push.\<close>

definition is_reset_or_push :: "effect \<Rightarrow> bool" where
  "is_reset_or_push e =
     (case e of GitResetHard d r \<Rightarrow> True | GitPushForce d b \<Rightarrow> True | _ \<Rightarrow> False)"

text \<open>The REST calls that change a merge request: edit, create and merge.\<close>

definition is_mr_mutation :: "effect \<Rightarrow> bool" where
  "is_mr_mutation e =
     (case e of
        MergeRequestsMerge p i w h m \<Rightarrow> True
      | MergeRequestsEdit p i opts \<Rightarrow> True
      | MergeRequestsCreate p s t ti opts \<Rightarrow> True
      | _ \<Rightarrow> False)"

definition is_mr_create :: "effect \<Rightarrow> bool" where
  "is_mr_create e = (case e of MergeRequestsCreate p s t ti opts \<Rightarrow> True | _ \<Rightarrow> False)"

text \<open>
  Whether the directory \<open>path\<close> exists after a trace, given whether it existed before:
  \<^verbatim>\<open>mkdirSync\<close> with \<^verbatim>\<open>recursive\<close> leaves it existing and \<^verbatim>\<open>rmSync\<close> with
  \<^verbatim>\<open>recursive\<close> and \<^verbatim>\<open>force\<close> leaves it removed; no other call of a run creates or
  removes the workspace itself.
\<close>

fun dir_exists_after :: "string \<Rightarrow> bool \<Rightarrow> effect list \<Rightarrow> bool" where
  "dir_exists_after path existed [] = existed"
| "dir_exists_after path existed (e # es) =
     dir_exists_after path
       (case e of
          MkdirSync q \<Rightarrow> (if q = path then True else existed)
        | RmSync q \<Rightarrow> (if q = path then False else existed)
        | _ \<Rightarrow> existed)
       es"

text \<open>
  The host process ending abnormally while a run is under way: the calls issued so far
  have happened and nothing else of the run does. Neither \<^verbatim>\<open>program.ts\<close> nor \<^verbatim>\<open>TempDir\<close>
  registers an exit or signal handler, so no disposer runs then.
\<close>

definition interrupted_after :: "nat \<Rightarrow> 'a run \<Rightarrow> effect list" where
  "interrupted_after k r = take k (fst r)"

section \<open>GitLab's open merge requests across runs\<close>

text \<open>
  To speak about two runs in a row, the part of GitLab's state that \<^verbatim>\<open>sync-branch\<close>
  reads and writes is written out as the REST interface describes it: the open merge
  requests, each with its project, source and target branch; the listing returns those of the
  exact triple; \<^verbatim>\<open>create\<close> adds one under a fresh positive number; \<^verbatim>\<open>edit\<close> changes
  title and description of the one with the given number.
\<close>

record open_mr =
  mr_project :: string
  mr_source :: string
  mr_target :: string
  mr_iid :: nat
  mr_title :: string
  mr_description :: string

definition listed :: "open_mr list \<Rightarrow> string \<Rightarrow> string \<Rightarrow> string \<Rightarrow> open_mr list" where
  "listed server project target source =
     filter (\<lambda>m. mr_project m = project \<and> mr_target m = target \<and> mr_source m = source) server"

definition fresh_iid :: "open_mr list \<Rightarrow> nat" where
  "fresh_iid server = Suc (fold max (map mr_iid server) 0)"

definition as_merge_request :: "open_mr \<Rightarrow> merge_request" where
  "as_merge_request m = \<lparr>iid = mr_iid m, has_conflicts = False, sha = []\<rparr>"

definition server_apply :: "effect \<Rightarrow> open_mr list \<Rightarrow> open_mr list" where
  "server_apply e server =
     (case e of
        MergeRequestsCreate p s t ti opts \<Rightarrow>
          server @ [\<lparr>mr_project = p, mr_source = s, mr_target = t, mr_iid = fresh_iid server,
                      mr_title = ti, mr_description = description opts\<rparr>]
      | MergeRequestsEdit p i opts \<Rightarrow>
          map (\<lambda>m. if mr_project m = p \<and> mr_iid m = i
                    then m\<lparr>mr_title := title opts, mr_description := description opts\<rparr>
                    else m) server
      | _ \<Rightarrow> server)"

text \<open>The answers GitLab gives to a run of \<^verbatim>\<open>sync-branch\<close> that starts in state \<open>server\<close>.\<close>

definition gitlab_answers :: "gitlab_user \<Rightarrow> string \<Rightarrow> command_options \<Rightarrow> open_mr list \<Rightarrow> gitlab_api" where
  "gitlab_answers user projectPath opts server =
     \<lparr>Users_showCurrentUser = Some user,
      Projects_show = Some projectPath,
      MergeRequests_all =
        Some (map as_merge_request
                (listed server (gitlabProjectId opts) (gitlabTargetBranch opts)
                   (createMRSourceBranchName (githubProjectSubmoduleName opts)
                      (githubRepositoryBranch opts)))),
      MergeRequests_allDiffs = None,
      MergeRequests_merge = None,
      MergeRequests_edit = True,
      MergeRequests_create = Some \<lparr>iid = fresh_iid server, has_conflicts = False, sha = []\<rparr>\<rparr>"

definition syncBranch_on_server ::
  "command_options \<Rightarrow> process_env \<Rightarrow> fs_env \<Rightarrow> git_answers \<Rightarrow> gitlab_user \<Rightarrow> string
     \<Rightarrow> open_mr list \<Rightarrow> open_mr list" where
  "syncBranch_on_server opts penv fs git user projectPath server =
     fold server_apply
       (fst (syncBranch opts penv fs git (gitlab_answers user projectPath opts server))) server"

section \<open>The scenarios of the specification as inputs\<close>

text \<open>Scenario A: branch feature/x, submodule my-sdk, target main, sha abc123.\<close>

definition scenario_opts :: command_options where
  "scenario_opts =
     \<lparr>gitlabProjectId = ''123'', gitlabTargetBranch = ''main'',
      githubRepositoryBranch = ''feature/x'', githubRepositorySHA = Some ''abc123'',
      githubProjectSubmoduleName = ''my-sdk'', gitlabHost = ''https://gitlab.example'',
      gitlabToken = ''secret''\<rparr>"

definition scenario_penv :: process_env where
  "scenario_penv =
     \<lparr>GITLAB_MERGE_WHEN_PIPELINE_SUCCEEDS = Some ''false'', GITHUB_PR_URL = None,
      URL_host = (\<lambda>u. Some ''gitlab.example''), URL_toString = (\<lambda>u. Some u)\<rparr>"

definition scenario_fs :: fs_env where
  "scenario_fs = \<lparr>TempDir_path = ''/tmp/gitlab-sync-1700000000000'', readdir_length = 0\<rparr>"

definition scenario_user :: gitlab_user where
  "scenario_user = \<lparr>username = ''bot'', email = ''bot@gitlab.example''\<rparr>"

text \<open>
  A git client on which every operation succeeds, with the given log between the target
  tip and the sync branch tip; the submodule sits at the path \<open>path\<close>.
\<close>

definition git_all_ok :: "log_item list \<Rightarrow> string \<Rightarrow> git_answers" where
  "git_all_ok log_all path =
     \<lparr>git_clone = True, git_addConfig_email = True, git_addConfig_name = True,
      git_fetch_source = True, git_checkoutBranch_source = True,
      git_fallback_fetch_target = True, git_fallback_checkoutBranch_target = True,
      git_validate_fetch_target = True, git_log = Some log_all, git_reset_hard = True,
      git_pin_submodule_path = Some path, git_listRemote_heads = Some ''abc123'',
      git_submoduleUpdate_init = True, git_submodule_fetch = True,
      git_submodule_checkoutBranch = True, git_submodule_checkout = True,
      git_submodule_revparse_HEAD = Some ''abc123'', git_commit_submodule_path = Some path,
      git_add = True, git_commit = True, git_push = True\<rparr>"

definition scenario_mr :: "bool \<Rightarrow> merge_request" where
  "scenario_mr conflicts = \<lparr>iid = 7, has_conflicts = conflicts, sha = ''5ca1ab1e''\<rparr>"

text \<open>The diff GitLab shows for a submodule pointer moved to abc123 at \<open>path\<close>.\<close>

definition pointer_diff :: "string \<Rightarrow> mr_diff" where
  "pointer_diff path =
     \<lparr>old_path = path, new_path = path,
      diff = ''@@ -1 +1 @@'' @ [CHR 0x0A] @ ''-Subproject commit 0ddba11'' @ [CHR 0x0A]
               @ ''+Subproject commit abc123'' @ [CHR 0x0A]\<rparr>"

definition scenario_gitlab ::
  "merge_request list \<Rightarrow> mr_diff list \<Rightarrow> merge_result \<Rightarrow> gitlab_api" where
  "scenario_gitlab mrs diffs result =
     \<lparr>Users_showCurrentUser = Some scenario_user, Projects_show = Some ''group/project'',
      MergeRequests_all = Some mrs, MergeRequests_allDiffs = Some diffs,
      MergeRequests_merge = Some result, MergeRequests_edit = True,
      MergeRequests_create = Some \<lparr>iid = 8, has_conflicts = False, sha = []\<rparr>\<rparr>"

text \<open>
  The character left of a position that has the text \<open>a\<close> before it, \<open>left\<close> being what
  precedes \<open>a\<close>.
\<close>

definition left_of :: "char option \<Rightarrow> string \<Rightarrow> char option" where
  "left_of left a = (if a = [] then left else Some (last a))"

section \<open>Properties of the source branch name\<close>

text \<open>
  C9. The source branch name is the submodule name, a slash, and the external branch;
  being a function of its two arguments it returns the same name on every call; and for a
  fixed submodule name two external branches get the same name exactly when they are the
  same branch. The older \<^verbatim>\<open>getMRSourceBranchName\<close> computes the same name.
\<close>

theorem source_branch_name_shape_and_injective_in_branch:
  "createMRSourceBranchName n b = n @ ''/'' @ b
   \<and> getMRSourceBranchName n b = createMRSourceBranchName n b
   \<and> ((createMRSourceBranchName n b1 = createMRSourceBranchName n b2) = (b1 = b2))"
  by (simp add: createMRSourceBranchName_def getMRSourceBranchName_def)

text \<open>
  C10. Taken jointly over (submodule name, external branch) the mapping is not injective:
  the distinct pairs (a, b/c) and (a/b, c) both give the sync branch a/b/c.
\<close>

theorem source_branch_name_not_jointly_injective:
  "(''a'', ''b/c'') \<noteq> (''a/b'', ''c'')
   \<and> createMRSourceBranchName ''a'' ''b/c'' = ''a/b/c''
   \<and> createMRSourceBranchName ''a/b'' ''c'' = ''a/b/c''
   \<and> getMRSourceBranchName ''a'' ''b/c'' = getMRSourceBranchName ''a/b'' ''c''"
  by (simp add: createMRSourceBranchName_def getMRSourceBranchName_def)

section \<open>Runs and strings: basic facts\<close>

lemmas run_defs = ret_def throw_def andThen_def call_def attempt_def

lemma starts_with_iff: "starts_with s sub = (\<exists>b. s = sub @ b)"
  by (induction s sub rule: starts_with.induct) auto

lemma js_includes_iff: "js_includes s sub = (\<exists>a b. s = a @ sub @ b)"
proof (induction s)
  case Nil
  then show ?case by (simp add: starts_with_iff)
next
  case (Cons x xs)
  show ?case
  proof
    assume "js_includes (x # xs) sub"
    then consider "starts_with (x # xs) sub" | "js_includes xs sub" by auto
    then show "\<exists>a b. x # xs = a @ sub @ b"
    proof cases
      case 1
      then obtain b where "x # xs = sub @ b" by (auto simp: starts_with_iff)
      then have "x # xs = [] @ sub @ b" by simp
      then show ?thesis by blast
    next
      case 2
      then obtain a b where "xs = a @ sub @ b" using Cons.IH by auto
      then have "x # xs = (x # a) @ sub @ b" by simp
      then show ?thesis by blast
    qed
  next
    assume "\<exists>a b. x # xs = a @ sub @ b"
    then obtain a b where ab: "x # xs = a @ sub @ b" by blast
    show "js_includes (x # xs) sub"
    proof (cases a)
      case Nil
      with ab have "starts_with (x # xs) sub" by (auto simp: starts_with_iff)
      then show ?thesis by simp
    next
      case (Cons y ys)
      with ab have "xs = ys @ sub @ b" by simp
      then have "js_includes xs sub" using Cons.IH by blast
      then show ?thesis by simp
    qed
  qed
qed


lemma match_here_iff:
  "word_bounded_match_here salt left s =
     (\<exists>b. s = salt @ b \<and> word_boundary left (first_char (salt @ b))
          \<and> word_boundary (left_of left salt) (first_char b))"
  by (auto simp: word_bounded_match_here_def starts_with_iff left_of_def)

lemma test_from_iff:
  "word_bounded_test_from salt left s =
     (\<exists>a b. s = a @ salt @ b
        \<and> word_boundary (left_of left a) (first_char (salt @ b))
        \<and> word_boundary (left_of left (a @ salt)) (first_char b))"
proof (induction s arbitrary: left)
  case Nil
  show ?case
    by (auto simp: match_here_iff left_of_def)
next
  case (Cons c cs)
  show ?case
  proof
    assume "word_bounded_test_from salt left (c # cs)"
    then consider "word_bounded_match_here salt left (c # cs)"
      | "word_bounded_test_from salt (Some c) cs" by auto
    then show "\<exists>a b. c # cs = a @ salt @ b
        \<and> word_boundary (left_of left a) (first_char (salt @ b))
        \<and> word_boundary (left_of left (a @ salt)) (first_char b)"
    proof cases
      case 1
      then obtain b where "c # cs = [] @ salt @ b"
        "word_boundary (left_of left []) (first_char (salt @ b))"
        "word_boundary (left_of left ([] @ salt)) (first_char b)"
        by (auto simp: match_here_iff left_of_def)
      then show ?thesis by blast
    next
      case 2
      then obtain a b where ab: "cs = a @ salt @ b"
        "word_boundary (left_of (Some c) a) (first_char (salt @ b))"
        "word_boundary (left_of (Some c) (a @ salt)) (first_char b)"
        using Cons.IH by blast
      have "c # cs = (c # a) @ salt @ b" using ab by simp
      moreover have "left_of left (c # a) = left_of (Some c) a"
        by (simp add: left_of_def)
      moreover have "left_of left ((c # a) @ salt) = left_of (Some c) (a @ salt)"
        by (simp add: left_of_def)
      ultimately show ?thesis using ab by metis
    qed
  next
    assume "\<exists>a b. c # cs = a @ salt @ b
        \<and> word_boundary (left_of left a) (first_char (salt @ b))
        \<and> word_boundary (left_of left (a @ salt)) (first_char b)"
    then obtain a b where ab: "c # cs = a @ salt @ b"
        "word_boundary (left_of left a) (first_char (salt @ b))"
        "word_boundary (left_of left (a @ salt)) (first_char b)" by blast
    show "word_bounded_test_from salt left (c # cs)"
    proof (cases a)
      case Nil
      with ab have "word_bounded_match_here salt left (c # cs)"
        by (auto simp: match_here_iff left_of_def)
      then show ?thesis by simp
    next
      case (Cons y ys)
      with ab have 1: "cs = ys @ salt @ b" and y: "y = c" by simp_all
      have "left_of left a = left_of (Some c) ys"
        using Cons y by (simp add: left_of_def)
      moreover have "left_of left (a @ salt) = left_of (Some c) (ys @ salt)"
        using Cons y by (simp add: left_of_def)
      ultimately have "word_bounded_test_from salt (Some c) cs"
        using Cons.IH[of "Some c"] 1 ab by metis
      then show ?thesis by simp
    qed
  qed
qed

lemma word_bounded_test_iff:
  "word_bounded_test salt s =
     (\<exists>a b. s = a @ salt @ b
        \<and> word_boundary (left_of None a) (first_char (salt @ b))
        \<and> word_boundary (left_of None (a @ salt)) (first_char b))"
  by (simp add: word_bounded_test_def test_from_iff)

lemma word_bounded_test_includes: "word_bounded_test salt s \<Longrightarrow> js_includes s salt"
  by (auto simp: word_bounded_test_iff js_includes_iff)

lemma some_without_salt_comments:
  "map logComment_of log_all = map Some comments \<Longrightarrow>
   some_without_salt salt log_all = Inr (\<exists>c \<in> set comments. \<not> word_bounded_test salt c)"
proof (induction log_all arbitrary: comments)
  case Nil
  then show ?case by simp
next
  case (Cons i rest)
  then obtain c cs where c: "comments = c # cs" "logComment_of i = Some c"
    "map logComment_of rest = map Some cs"
    by (cases comments) auto
  then show ?case using Cons.IH[of cs] by simp
qed

section \<open>The provenance check\<close>

lemma snd_andThen_Inl:
  "(snd (andThen m f) = Inl e) = (snd m = Inl e \<or> (\<exists>a. snd m = Inr a \<and> snd (f a) = Inl e))"
  by (cases "snd m") (auto simp: andThen_def)

lemma snd_andThen_Inr:
  "(snd (andThen m f) = Inr b) = (\<exists>a. snd m = Inr a \<and> snd (f a) = Inr b)"
  by (cases "snd m") (auto simp: andThen_def)

lemma fst_andThen:
  "fst (andThen m f) = (case snd m of Inl e \<Rightarrow> fst m | Inr a \<Rightarrow> fst m @ fst (f a))"
  by (cases "snd m") (auto simp: andThen_def)

lemma list_all_andThen:
  "list_all P (fst (andThen m f)) =
     (list_all P (fst m) \<and> (\<forall>a. snd m = Inr a \<longrightarrow> list_all P (fst (f a))))"
  by (cases "snd m") (auto simp: andThen_def)

lemma list_all_orElse:
  "list_all P (fst (orElse m h)) =
     (list_all P (fst m) \<and> ((\<exists>e. snd m = Inl e) \<longrightarrow> list_all P (fst h)))"
  by (cases "snd m") (auto simp: orElse_def)

lemma snd_orElse_Inl:
  "(snd (orElse m h) = Inl e) = ((\<exists>e'. snd m = Inl e') \<and> snd h = Inl e)"
  by (cases "snd m") (auto simp: orElse_def)

lemma validate_result:
  assumes "git_validate_fetch_target git" and "git_log git = Some log_all"
    and "map logComment_of log_all = map Some comments"
  shows "validateIsSubmoduleSyncBranch d opts src salt git =
     ([GitFetch (RepoBaseDir d) (gitlabTargetBranch opts),
       GitLog (RepoBaseDir d) (''origin/'' @ gitlabTargetBranch opts) src],
      if \<exists>c \<in> set comments. \<not> word_bounded_test salt c then Inl DriftDetected else Inr ())"
  using assms some_without_salt_comments[OF assms(3), of salt]
  by (simp add: validateIsSubmoduleSyncBranch_def run_defs)

text \<open>
  C1. For a literal salt, once the target branch is fetched and the log of the
  range is read, the provenance check throws the drift error exactly when some commit
  comment has no occurrence of the salt with a word boundary on both sides, and returns
  otherwise; when it returns, the reset is the next call. A comment that does not contain
  the salt at all is such a comment, so it always ends in the drift error.
\<close>

theorem provenance_check_fails_iff_comment_without_word_bounded_salt:
  assumes "regexp_literal salt"
    and "git_validate_fetch_target git"
    and "git_log git = Some log_all"
    and "map logComment_of log_all = map Some comments"
  shows "snd (validateIsSubmoduleSyncBranch d opts src salt git) =
           (if \<exists>c \<in> set comments. \<not> word_bounded_test salt c then Inl DriftDetected else Inr ())
       \<and> ((\<forall>c \<in> set comments. word_bounded_test salt c) \<longrightarrow>
            fst (resetGitlabRepoBranch d opts src salt git) =
              [GitFetch (RepoBaseDir d) (gitlabTargetBranch opts),
               GitLog (RepoBaseDir d) (''origin/'' @ gitlabTargetBranch opts) src,
               GitResetHard (RepoBaseDir d) (''origin/'' @ gitlabTargetBranch opts)])
       \<and> ((\<exists>c \<in> set comments. \<not> js_includes c salt) \<longrightarrow>
            snd (validateIsSubmoduleSyncBranch d opts src salt git) = Inl DriftDetected)"
  using validate_result[OF assms(2-4), of d opts src salt] word_bounded_test_includes[of salt]
  by (auto simp: resetGitlabRepoBranch_def run_defs)

lemma default_salt_literal: "regexp_literal default_commitMessageSalt"
  by (simp add: default_commitMessageSalt_def regexp_literal_def)

lemma engine_commit_is_salted:
  "word_bounded_test default_commitMessageSalt (commitMessage scenario_opts default_commitMessageSalt)"
  by code_simp

text \<open>
  C1 at the default salt, on a range that holds the engine's own commit and
  one commit made by hand.
\<close>

theorem provenance_check_witness:
  "regexp_literal default_commitMessageSalt
   \<and> git_validate_fetch_target (git_all_ok [LogString (commitMessage scenario_opts default_commitMessageSalt), LogObject (Some ''fix typo by hand'')] ''my-sdk'')
   \<and> map logComment_of [LogString (commitMessage scenario_opts default_commitMessageSalt), LogObject (Some ''fix typo by hand'')]
        = map Some [commitMessage scenario_opts default_commitMessageSalt, ''fix typo by hand'']
   \<and> \<not> js_includes ''fix typo by hand'' default_commitMessageSalt
   \<and> snd (validateIsSubmoduleSyncBranch ''/tmp/w'' scenario_opts ''my-sdk/feature/x'' default_commitMessageSalt
        (git_all_ok [LogString (commitMessage scenario_opts default_commitMessageSalt), LogObject (Some ''fix typo by hand'')] ''my-sdk''))
      = Inl DriftDetected"
proof -
  have n: "\<not> js_includes ''fix typo by hand'' default_commitMessageSalt"
    by code_simp
  have m: "map logComment_of [LogString (commitMessage scenario_opts default_commitMessageSalt), LogObject (Some ''fix typo by hand'')]
        = map Some [commitMessage scenario_opts default_commitMessageSalt, ''fix typo by hand'']"
    by (simp add: logComment_of_def)
  have g: "git_validate_fetch_target (git_all_ok [LogString (commitMessage scenario_opts default_commitMessageSalt), LogObject (Some ''fix typo by hand'')] ''my-sdk'')"
    "git_log (git_all_ok [LogString (commitMessage scenario_opts default_commitMessageSalt), LogObject (Some ''fix typo by hand'')] ''my-sdk'') = Some [LogString (commitMessage scenario_opts default_commitMessageSalt), LogObject (Some ''fix typo by hand'')]"
    by (simp_all add: git_all_ok_def)
  show ?thesis
    using provenance_check_fails_iff_comment_without_word_bounded_salt
      [OF default_salt_literal g(1) g(2) m, of "''/tmp/w''" scenario_opts "''my-sdk/feature/x''"]
      n default_salt_literal g(1) m
    by auto
qed

text \<open>
  C1, read with plain containment: the only comment of the range contains the default
  salt, inside a longer word, and the check still throws the drift error.
\<close>

theorem provenance_check_substring_counterexample:
  "js_includes ''chore: xsubmodule-auto-syncx'' default_commitMessageSalt
   \<and> snd (validateIsSubmoduleSyncBranch ''/tmp/w'' scenario_opts ''my-sdk/feature/x''
        default_commitMessageSalt (git_all_ok [LogString ''chore: xsubmodule-auto-syncx''] ''my-sdk''))
      = Inl DriftDetected"
proof -
  have 1: "js_includes ''chore: xsubmodule-auto-syncx'' default_commitMessageSalt"
    by code_simp
  have 2: "\<not> word_bounded_test default_commitMessageSalt ''chore: xsubmodule-auto-syncx''"
    by code_simp
  show ?thesis using 1 2
    by (simp add: validateIsSubmoduleSyncBranch_def run_defs git_all_ok_def logComment_of_def)
qed

text \<open>
  The older copy of the check does the opposite of the newer one on a commit made by hand:
  its pattern asks for backspace characters and its callback is not negated, so it returns.
\<close>

lemma older_validate_accepts_unsalted_commit:
  "snd (validateIsSubmoduleSyncBranch_older ''/tmp/w'' scenario_opts ''my-sdk/feature/x''
        default_commitMessageSalt (git_all_ok [LogString ''fix typo by hand''] ''my-sdk''))
      = Inr ()"
proof -
  have "\<not> backspace_test default_commitMessageSalt ''fix typo by hand''"
    by code_simp
  then show ?thesis
    by (simp add: validateIsSubmoduleSyncBranch_older_def run_defs git_all_ok_def js_String_def)
qed

section \<open>Drift aborts before anything destructive; the workspace is released\<close>

lemma snd_call_Inl: "(snd (call eff answer err) = Inl e) = (answer = None \<and> e = err)"
  by (cases answer) (auto simp: call_def)

lemma snd_attempt_Inl: "(snd (attempt eff ok err) = Inl e) = (\<not> ok \<and> e = err)"
  by (auto simp: attempt_def)

lemma fst_call: "fst (call eff answer err) = [eff]"
  by (simp add: call_def)

lemma fst_attempt: "fst (attempt eff ok err) = [eff]"
  by (simp add: attempt_def)

lemma snd_throw: "snd (throw e) = Inl e" and fst_throw: "fst (throw e) = []"
  and snd_ret: "snd (ret x) = Inr x" and fst_ret: "fst (ret x) = []"
  by (simp_all add: throw_def ret_def)

lemmas run_snd_simps = snd_andThen_Inl snd_orElse_Inl snd_call_Inl snd_attempt_Inl snd_throw snd_ret
lemmas run_all_simps = list_all_andThen list_all_orElse fst_call fst_attempt fst_throw fst_ret

lemma clone_not_drift: "snd (cloneGitlabRepo d opts penv git gitlab) \<noteq> Inl DriftDetected"
  by (auto simp: cloneGitlabRepo_def run_snd_simps split: option.splits)

lemma checkout_not_drift: "snd (checkoutGitlabSourceBranch d opts src git) \<noteq> Inl DriftDetected"
  by (auto simp: checkoutGitlabSourceBranch_def run_snd_simps)

lemma getSubmodulePath_not_drift: "snd (getSubmodulePath d opts answer) \<noteq> Inl DriftDetected"
  by (auto simp: getSubmodulePath_def run_snd_simps Let_def)

lemma getRepoBranchHeadSHA_not_drift: "snd (getRepoBranchHeadSHA b br git) \<noteq> Inl DriftDetected"
  by (auto simp: getRepoBranchHeadSHA_def run_snd_simps)

lemma pin_not_drift: "snd (checkoutSubmoduleBranch d opts git) \<noteq> Inl DriftDetected"
  using getSubmodulePath_not_drift getRepoBranchHeadSHA_not_drift
  by (auto simp: checkoutSubmoduleBranch_def run_snd_simps Let_def split: option.splits if_splits)

lemma commit_not_drift: "snd (commitGitlabRepoChanges d opts salt git) \<noteq> Inl DriftDetected"
  using getSubmodulePath_not_drift
  by (auto simp: commitGitlabRepoChanges_def run_snd_simps)

lemma push_not_drift: "snd (pushGitlabRepoChanges d src git) \<noteq> Inl DriftDetected"
  by (auto simp: pushGitlabRepoChanges_def run_snd_simps)

lemma clone_no_reset_or_push:
  "list_all (\<lambda>e. \<not> is_reset_or_push e) (fst (cloneGitlabRepo d opts penv git gitlab))"
  by (auto simp: cloneGitlabRepo_def run_all_simps is_reset_or_push_def split: option.splits)

lemma checkout_no_reset_or_push:
  "list_all (\<lambda>e. \<not> is_reset_or_push e) (fst (checkoutGitlabSourceBranch d opts src git))"
  by (auto simp: checkoutGitlabSourceBranch_def run_all_simps is_reset_or_push_def)

lemma validate_no_reset_or_push:
  "list_all (\<lambda>e. \<not> is_reset_or_push e) (fst (validateIsSubmoduleSyncBranch d opts src salt git))"
  by (auto simp: validateIsSubmoduleSyncBranch_def run_all_simps is_reset_or_push_def
      split: sum.splits)

lemma reset_branch_drift:
  assumes "snd (resetGitlabRepoBranch d opts src salt git) = Inl DriftDetected"
  shows "fst (resetGitlabRepoBranch d opts src salt git)
           = fst (validateIsSubmoduleSyncBranch d opts src salt git)"
  using assms
  by (auto simp: resetGitlabRepoBranch_def run_snd_simps fst_andThen split: sum.splits)

lemma body_drift_no_reset_or_push:
  assumes "snd (upsertBranch_body opts src salt penv git gitlab d) = Inl DriftDetected"
  shows "list_all (\<lambda>e. \<not> is_reset_or_push e) (fst (upsertBranch_body opts src salt penv git gitlab d))"
proof -
  from assms have r: "snd (cloneGitlabRepo d opts penv git gitlab) = Inr ()"
      "snd (checkoutGitlabSourceBranch d opts src git) = Inr ()"
      "snd (resetGitlabRepoBranch d opts src salt git) = Inl DriftDetected"
    using clone_not_drift[of d opts penv git gitlab] checkout_not_drift[of d opts src git]
      pin_not_drift[of d opts git] commit_not_drift[of d opts salt git]
      push_not_drift[of d src git]
    by (auto simp: upsertBranch_body_def snd_andThen_Inl)
  then have "fst (upsertBranch_body opts src salt penv git gitlab d) =
      fst (cloneGitlabRepo d opts penv git gitlab) @ fst (checkoutGitlabSourceBranch d opts src git)
        @ fst (validateIsSubmoduleSyncBranch d opts src salt git)"
    using reset_branch_drift[OF r(3)]
    by (simp add: upsertBranch_body_def fst_andThen)
  then show ?thesis
    using clone_no_reset_or_push checkout_no_reset_or_push validate_no_reset_or_push
    by simp
qed

lemma using_TempDir_Inl:
  "snd (using_TempDir fs body) = Inl e \<Longrightarrow> e \<noteq> TempDirNotEmpty \<Longrightarrow>
     readdir_length fs = 0 \<and> snd (body (TempDir_path fs)) = Inl e"
  by (auto simp: using_TempDir_def TempDir_new_def run_defs split: if_splits)

lemma using_TempDir_trace:
  "readdir_length fs = 0 \<Longrightarrow>
   fst (using_TempDir fs body) =
     MkdirSync (TempDir_path fs) # ReaddirSync (TempDir_path fs) # fst (body (TempDir_path fs))
       @ [RmSync (TempDir_path fs)]"
  by (simp add: using_TempDir_def TempDir_new_def TempDir_dispose_def run_defs)

lemma using_TempDir_result:
  "readdir_length fs = 0 \<Longrightarrow> snd (using_TempDir fs body) = snd (body (TempDir_path fs))"
  by (simp add: using_TempDir_def TempDir_new_def TempDir_dispose_def run_defs)

lemma TempDir_not_empty:
  "readdir_length fs > 0 \<Longrightarrow>
   using_TempDir fs body =
     ([MkdirSync (TempDir_path fs), ReaddirSync (TempDir_path fs)], Inl TempDirNotEmpty)"
  by (simp add: using_TempDir_def TempDir_new_def run_defs)

lemma older_validate_no_reset_or_push:
  "list_all (\<lambda>e. \<not> is_reset_or_push e)
     (fst (validateIsSubmoduleSyncBranch_older d opts src salt git))"
  by (auto simp: validateIsSubmoduleSyncBranch_older_def run_all_simps is_reset_or_push_def)

lemma older_reset_branch_drift:
  assumes "snd (resetGitlabRepoBranch_older d opts src salt git) = Inl DriftDetected"
  shows "fst (resetGitlabRepoBranch_older d opts src salt git)
           = fst (validateIsSubmoduleSyncBranch_older d opts src salt git)"
  using assms
  by (auto simp: resetGitlabRepoBranch_older_def run_snd_simps fst_andThen split: sum.splits)

lemma older_body_drift_no_reset_or_push:
  assumes "snd (upsertBranch_body_older opts src salt penv git gitlab d) = Inl DriftDetected"
  shows "list_all (\<lambda>e. \<not> is_reset_or_push e)
           (fst (upsertBranch_body_older opts src salt penv git gitlab d))"
proof -
  from assms have r: "snd (cloneGitlabRepo d opts penv git gitlab) = Inr ()"
      "snd (checkoutGitlabSourceBranch d opts src git) = Inr ()"
      "snd (resetGitlabRepoBranch_older d opts src salt git) = Inl DriftDetected"
    using clone_not_drift[of d opts penv git gitlab] checkout_not_drift[of d opts src git]
      pin_not_drift[of d opts git] commit_not_drift[of d opts salt git]
      push_not_drift[of d src git]
    by (auto simp: upsertBranch_body_older_def snd_andThen_Inl)
  then have "fst (upsertBranch_body_older opts src salt penv git gitlab d) =
      fst (cloneGitlabRepo d opts penv git gitlab) @ fst (checkoutGitlabSourceBranch d opts src git)
        @ fst (validateIsSubmoduleSyncBranch_older d opts src salt git)"
    using older_reset_branch_drift[OF r(3)]
    by (simp add: upsertBranch_body_older_def fst_andThen)
  then show ?thesis
    using clone_no_reset_or_push checkout_no_reset_or_push older_validate_no_reset_or_push
    by simp
qed

lemma older_drift_no_reset_or_push:
  assumes "snd (upsertBranch_older opts src salt penv fs git gitlab) = Inl DriftDetected"
  shows "list_all (\<lambda>e. \<not> is_reset_or_push e)
           (fst (upsertBranch_older opts src salt penv fs git gitlab))"
proof -
  from assms have z: "readdir_length fs = 0"
      and b: "snd (upsertBranch_body_older opts src salt penv git gitlab (TempDir_path fs)) = Inl DriftDetected"
    using using_TempDir_Inl[of fs _ DriftDetected] by (auto simp: upsertBranch_older_def)
  show ?thesis
    using older_body_drift_no_reset_or_push[OF b] z
    by (simp add: upsertBranch_older_def using_TempDir_trace is_reset_or_push_def)
qed

lemma newer_drift_no_reset_or_push:
  assumes "snd (upsertBranch opts src salt penv fs git gitlab) = Inl DriftDetected"
  shows "list_all (\<lambda>e. \<not> is_reset_or_push e) (fst (upsertBranch opts src salt penv fs git gitlab))"
proof -
  from assms have z: "readdir_length fs = 0"
      and b: "snd (upsertBranch_body opts src salt penv git gitlab (TempDir_path fs)) = Inl DriftDetected"
    using using_TempDir_Inl[of fs _ DriftDetected] by (auto simp: upsertBranch_def)
  show ?thesis
    using body_drift_no_reset_or_push[OF b] z
    by (simp add: upsertBranch_def using_TempDir_trace is_reset_or_push_def)
qed

lemma reset_follows_validate:
  "fst (resetGitlabRepoBranch d opts src salt git) =
     fst (validateIsSubmoduleSyncBranch d opts src salt git)
       @ (if snd (validateIsSubmoduleSyncBranch d opts src salt git) = Inr ()
          then [GitResetHard (RepoBaseDir d) (''origin/'' @ gitlabTargetBranch opts)]
          else [])"
  by (cases "snd (validateIsSubmoduleSyncBranch d opts src salt git)")
     (auto simp: resetGitlabRepoBranch_def fst_andThen fst_attempt)

lemma older_reset_follows_validate:
  "fst (resetGitlabRepoBranch_older d opts src salt git) =
     fst (validateIsSubmoduleSyncBranch_older d opts src salt git)
       @ (if snd (validateIsSubmoduleSyncBranch_older d opts src salt git) = Inr ()
          then [GitResetHard (RepoBaseDir d) (''origin/'' @ gitlabTargetBranch opts)]
          else [])"
  by (cases "snd (validateIsSubmoduleSyncBranch_older d opts src salt git)")
     (auto simp: resetGitlabRepoBranch_older_def fst_andThen fst_attempt)

text \<open>
  C3. A run of \<^verbatim>\<open>upsertBranch\<close> that ends in the drift error has issued neither a hard
  reset nor a push, in the newer and in the older copy of the file alike; and in every run
  the hard reset is issued only after the provenance check has returned, as the call right
  after it.
\<close>

theorem drift_abort_issues_no_reset_and_no_push:
  "(snd (upsertBranch opts src salt penv fs git gitlab) = Inl DriftDetected \<longrightarrow>
      list_all (\<lambda>e. \<not> is_reset_or_push e) (fst (upsertBranch opts src salt penv fs git gitlab)))
   \<and> (snd (upsertBranch_older opts src salt penv fs git gitlab) = Inl DriftDetected \<longrightarrow>
      list_all (\<lambda>e. \<not> is_reset_or_push e)
        (fst (upsertBranch_older opts src salt penv fs git gitlab)))
   \<and> fst (resetGitlabRepoBranch d opts src salt git) =
        fst (validateIsSubmoduleSyncBranch d opts src salt git)
          @ (if snd (validateIsSubmoduleSyncBranch d opts src salt git) = Inr ()
             then [GitResetHard (RepoBaseDir d) (''origin/'' @ gitlabTargetBranch opts)]
             else [])
   \<and> fst (resetGitlabRepoBranch_older d opts src salt git) =
        fst (validateIsSubmoduleSyncBranch_older d opts src salt git)
          @ (if snd (validateIsSubmoduleSyncBranch_older d opts src salt git) = Inr ()
             then [GitResetHard (RepoBaseDir d) (''origin/'' @ gitlabTargetBranch opts)]
             else [])"
proof (intro conjI impI)
  assume "snd (upsertBranch opts src salt penv fs git gitlab) = Inl DriftDetected"
  then show "list_all (\<lambda>e. \<not> is_reset_or_push e)
      (fst (upsertBranch opts src salt penv fs git gitlab))"
    by (rule newer_drift_no_reset_or_push)
next
  assume "snd (upsertBranch_older opts src salt penv fs git gitlab) = Inl DriftDetected"
  then show "list_all (\<lambda>e. \<not> is_reset_or_push e)
      (fst (upsertBranch_older opts src salt penv fs git gitlab))"
    by (rule older_drift_no_reset_or_push)
qed (rule reset_follows_validate older_reset_follows_validate)+

lemma dir_exists_after_append:
  "dir_exists_after p b (xs @ ys) = dir_exists_after p (dir_exists_after p b xs) ys"
  by (induction xs arbitrary: b) auto

text \<open>
  C4. Once the constructor of \<^verbatim>\<open>TempDir\<close> has returned, the workspace
  directory is removed by the last call of the run, whatever the body did: returned or
  threw at any of its steps.
\<close>

theorem workspace_removed_when_run_returns_or_throws:
  assumes "readdir_length fs = 0"
  shows "\<not> dir_exists_after (TempDir_path fs) existed
            (fst (upsertBranch opts src salt penv fs git gitlab))
       \<and> last (fst (upsertBranch opts src salt penv fs git gitlab)) = RmSync (TempDir_path fs)"
proof -
  have "fst (upsertBranch opts src salt penv fs git gitlab) =
     (MkdirSync (TempDir_path fs) # ReaddirSync (TempDir_path fs)
        # fst (upsertBranch_body opts src salt penv git gitlab (TempDir_path fs)))
       @ [RmSync (TempDir_path fs)]"
    using assms by (simp add: upsertBranch_def using_TempDir_trace)
  then show ?thesis
    by (simp only: dir_exists_after_append last_snoc) simp
qed

section \<open>The merge command\<close>


text \<open>
  C5. With one open merge request that has no conflicts and whose diffs pass the pointer
  check, \<^verbatim>\<open>mergeMr\<close> ends as the answer to the merge decides: merged returns; otherwise
  a canceled or failed pipeline throws with that status, a successful pipeline throws for
  an unknown reason, and any other or no pipeline status returns.
\<close>

theorem mergeMr_outcome_classification:
  assumes "MergeRequests_all gitlab = Some [mr]"
    and "\<not> has_conflicts mr"
    and "MergeRequests_allDiffs gitlab = Some diffs"
    and "list_ex (diff_has_submodule_sha (githubRepositorySHA opts)) diffs"
    and "MergeRequests_merge gitlab = Some result"
  shows "snd (mergeMr opts penv gitlab) =
     (if state result = ''merged'' then Inr ()
      else if pipeline_status result = Some ''canceled'' then Inl (MergeNotCompleted ''canceled'')
      else if pipeline_status result = Some ''failed'' then Inl (MergeNotCompleted ''failed'')
      else if pipeline_status result = Some ''success'' then Inl MergeNotCompletedUnknownReason
      else Inr ())"
  using assms
  by (simp add: mergeMr_def merge_outcome_def run_defs template_of_def Let_def)

lemma scenario_diff_ok:
  "diff_has_submodule_sha (Some ''abc123'') (pointer_diff ''monite-sdk'')"
  by (simp add: diff_has_submodule_sha_def pointer_diff_def template_of_def)

text \<open>
  C5 at a concrete input: the merge request stays open while its pipeline is running, and
  the command returns.
\<close>

theorem mergeMr_outcome_classification_witness:
  "MergeRequests_all (scenario_gitlab [scenario_mr False] [pointer_diff ''monite-sdk'']
       \<lparr>state = ''opened'', pipeline_status = Some ''running''\<rparr>) = Some [scenario_mr False]
   \<and> \<not> has_conflicts (scenario_mr False)
   \<and> list_ex (diff_has_submodule_sha (githubRepositorySHA scenario_opts)) [pointer_diff ''monite-sdk'']
   \<and> snd (mergeMr scenario_opts scenario_penv
        (scenario_gitlab [scenario_mr False] [pointer_diff ''monite-sdk'']
           \<lparr>state = ''opened'', pipeline_status = Some ''running''\<rparr>)) = Inr ()"
  using mergeMr_outcome_classification
    [of "scenario_gitlab [scenario_mr False] [pointer_diff ''monite-sdk'']
           \<lparr>state = ''opened'', pipeline_status = Some ''running''\<rparr>"
        "scenario_mr False" "[pointer_diff ''monite-sdk'']" scenario_opts
        "\<lparr>state = ''opened'', pipeline_status = Some ''running''\<rparr>" scenario_penv]
  by (simp add: scenario_gitlab_def scenario_mr_def scenario_opts_def scenario_diff_ok)

text \<open>
  C6. When the one open merge request has conflicts, \<^verbatim>\<open>mergeMr\<close> throws the conflicts
  error after the listing call alone: it asks for no diffs and requests no merge, whatever
  the diffs are.
\<close>

theorem mergeMr_conflicts_block_merge:
  assumes "MergeRequests_all gitlab = Some [mr]" and "has_conflicts mr"
  shows "mergeMr opts penv gitlab =
     ([MergeRequestsAll (gitlabProjectId opts) (gitlabTargetBranch opts)
         (createMRSourceBranchName (githubProjectSubmoduleName opts) (githubRepositoryBranch opts))],
      Inl MRHasConflicts)"
  using assms
  by (simp add: mergeMr_def run_defs Let_def)

text \<open>
  C6 at a concrete input (scenario D).
\<close>

theorem mergeMr_conflicts_block_merge_witness:
  "MergeRequests_all (scenario_gitlab [scenario_mr True] [pointer_diff ''monite-sdk'']
       \<lparr>state = ''merged'', pipeline_status = None\<rparr>) = Some [scenario_mr True]
   \<and> has_conflicts (scenario_mr True)
   \<and> mergeMr scenario_opts scenario_penv
        (scenario_gitlab [scenario_mr True] [pointer_diff ''monite-sdk'']
           \<lparr>state = ''merged'', pipeline_status = None\<rparr>)
      = ([MergeRequestsAll ''123'' ''main'' ''my-sdk/feature/x''], Inl MRHasConflicts)"
  using mergeMr_conflicts_block_merge
    [of "scenario_gitlab [scenario_mr True] [pointer_diff ''monite-sdk'']
           \<lparr>state = ''merged'', pipeline_status = None\<rparr>"
        "scenario_mr True" scenario_opts scenario_penv]
  by (simp add: scenario_gitlab_def scenario_mr_def scenario_opts_def createMRSourceBranchName_def)

text \<open>
  What the pointer check of \<^verbatim>\<open>mergeMr\<close> decides, for one open merge request without
  conflicts: the run stops after the diffs with the missing-commit error exactly when no
  diff has both paths equal to the text monite-sdk and the added pointer line, newline
  included, in its text.
\<close>

lemma mergeMr_pointer_check:
  assumes "MergeRequests_all gitlab = Some [mr]" and "\<not> has_conflicts mr"
    and "MergeRequests_allDiffs gitlab = Some diffs"
  shows "(mergeMr opts penv gitlab =
            ([MergeRequestsAll (gitlabProjectId opts) (gitlabTargetBranch opts)
                (createMRSourceBranchName (githubProjectSubmoduleName opts)
                   (githubRepositoryBranch opts)),
              MergeRequestsAllDiffs (gitlabProjectId opts) (iid mr)],
             Inl MRDiffMissingExpectedSHA))
         = (\<not> (\<exists>d \<in> set diffs. new_path d = ''monite-sdk'' \<and> old_path d = ''monite-sdk''
                \<and> (\<exists>a b. diff d = a @ ''+Subproject commit ''
                        @ template_of (githubRepositorySHA opts) @ [CHR 0x0A] @ b)))"
proof -
  have ex: "list_ex (diff_has_submodule_sha (githubRepositorySHA opts)) diffs
      = (\<exists>d \<in> set diffs. new_path d = ''monite-sdk'' \<and> old_path d = ''monite-sdk''
                \<and> (\<exists>a b. diff d = a @ ''+Subproject commit ''
                        @ template_of (githubRepositorySHA opts) @ [CHR 0x0A] @ b))"
    by (simp add: list_ex_iff diff_has_submodule_sha_def js_includes_iff)
  show ?thesis
  proof (cases "list_ex (diff_has_submodule_sha (githubRepositorySHA opts)) diffs")
    case True
    then have "fst (mergeMr opts penv gitlab) \<noteq>
            [MergeRequestsAll (gitlabProjectId opts) (gitlabTargetBranch opts)
                (createMRSourceBranchName (githubProjectSubmoduleName opts)
                   (githubRepositoryBranch opts)),
              MergeRequestsAllDiffs (gitlabProjectId opts) (iid mr)]"
      using assms True
      by (cases "MergeRequests_merge gitlab") (simp_all add: mergeMr_def Let_def run_defs)
    then show ?thesis using True ex by auto
  next
    case False
    then have "mergeMr opts penv gitlab =
            ([MergeRequestsAll (gitlabProjectId opts) (gitlabTargetBranch opts)
                (createMRSourceBranchName (githubProjectSubmoduleName opts)
                   (githubRepositoryBranch opts)),
              MergeRequestsAllDiffs (gitlabProjectId opts) (iid mr)],
             Inl MRDiffMissingExpectedSHA)"
      using assms by (simp add: mergeMr_def Let_def run_defs)
    then show ?thesis using False ex by simp
  qed
qed

text \<open>
  C2, at the input where the code departs from it. The submodule my-sdk sits at the path
  my-sdk and the merge request carries the pointer diff for that path, with the added line
  for the expected commit abc123; \<^verbatim>\<open>mergeMr\<close> still throws the missing-commit error,
  because it compares both paths with the fixed text monite-sdk.
\<close>

theorem mergeMr_rejects_pointer_diff_at_configured_path:
  "old_path (pointer_diff ''my-sdk'') = githubProjectSubmoduleName scenario_opts
   \<and> new_path (pointer_diff ''my-sdk'') = githubProjectSubmoduleName scenario_opts
   \<and> js_includes (diff (pointer_diff ''my-sdk'')) (''+Subproject commit abc123'' @ [CHR 0x0A])
   \<and> mergeMr scenario_opts scenario_penv
        (scenario_gitlab [scenario_mr False] [pointer_diff ''my-sdk'']
           \<lparr>state = ''merged'', pipeline_status = None\<rparr>)
      = ([MergeRequestsAll ''123'' ''main'' ''my-sdk/feature/x'', MergeRequestsAllDiffs ''123'' 7],
         Inl MRDiffMissingExpectedSHA)"
  by (simp add: mergeMr_def run_defs scenario_gitlab_def scenario_mr_def scenario_opts_def
      createMRSourceBranchName_def pointer_diff_def diff_has_submodule_sha_def)

section \<open>Concrete runs of upsertBranch\<close>

lemmas scenario_defs = scenario_opts_def scenario_penv_def scenario_fs_def scenario_user_def
  git_all_ok_def scenario_gitlab_def scenario_mr_def default_commitMessageSalt_def

lemmas step_defs = upsertBranch_def using_TempDir_def TempDir_new_def TempDir_dispose_def
  upsertBranch_body_def cloneGitlabRepo_def checkoutGitlabSourceBranch_def orElse_def
  resetGitlabRepoBranch_def validateIsSubmoduleSyncBranch_def checkoutSubmoduleBranch_def
  getSubmodulePath_def getRepoBranchHeadSHA_def commitGitlabRepoChanges_def
  pushGitlabRepoChanges_def logComment_of_def

lemma hand_made_unsalted: "\<not> word_bounded_test ''submodule-auto-sync'' ''fix typo by hand''"
  by code_simp

lemma trim_my_sdk: "trim ''my-sdk'' = ''my-sdk''"
  by code_simp

lemma scenario_drift_run:
  "snd (upsertBranch scenario_opts ''my-sdk/feature/x'' default_commitMessageSalt scenario_penv
       scenario_fs (git_all_ok [LogString ''fix typo by hand''] ''my-sdk'')
       (scenario_gitlab [] [] \<lparr>state = ''opened'', pipeline_status = None\<rparr>))
   = Inl DriftDetected"
  using hand_made_unsalted
  by (simp add: step_defs scenario_defs run_defs)

lemma scenario_clean_run:
  "snd (upsertBranch scenario_opts ''my-sdk/feature/x'' default_commitMessageSalt scenario_penv
       scenario_fs (git_all_ok [] ''my-sdk'') (scenario_gitlab mrs diffs result))
   = Inr ()"
  using trim_my_sdk
  by (simp add: step_defs scenario_defs run_defs Let_def)

lemma backspaced_salt_matches:
  "backspace_test ''submodule-auto-sync'' (CHR 0x08 # ''submodule-auto-sync'' @ [CHR 0x08])"
  by code_simp

lemma scenario_older_drift_run:
  "snd (upsertBranch_older scenario_opts ''my-sdk/feature/x'' default_commitMessageSalt
       scenario_penv scenario_fs
       (git_all_ok [LogString (CHR 0x08 # ''submodule-auto-sync'' @ [CHR 0x08])] ''my-sdk'')
       (scenario_gitlab [] [] \<lparr>state = ''opened'', pipeline_status = None\<rparr>))
   = Inl DriftDetected"
  using backspaced_salt_matches
  by (simp add: upsertBranch_older_def upsertBranch_body_older_def resetGitlabRepoBranch_older_def
      validateIsSubmoduleSyncBranch_older_def js_String_def step_defs scenario_defs run_defs)

text \<open>
  C3 at concrete runs. Newer copy: the sync branch carries a commit made by hand. Older
  copy: it carries a commit whose message has the salt between two backspaces, the only
  kind its pattern matches. Both runs end in the drift error with no reset and no push.
\<close>

theorem drift_abort_witness:
  "snd (upsertBranch scenario_opts ''my-sdk/feature/x'' default_commitMessageSalt scenario_penv
       scenario_fs (git_all_ok [LogString ''fix typo by hand''] ''my-sdk'')
       (scenario_gitlab [] [] \<lparr>state = ''opened'', pipeline_status = None\<rparr>))
     = Inl DriftDetected
   \<and> list_all (\<lambda>e. \<not> is_reset_or_push e)
        (fst (upsertBranch scenario_opts ''my-sdk/feature/x'' default_commitMessageSalt
           scenario_penv scenario_fs (git_all_ok [LogString ''fix typo by hand''] ''my-sdk'')
           (scenario_gitlab [] [] \<lparr>state = ''opened'', pipeline_status = None\<rparr>)))
   \<and> snd (upsertBranch_older scenario_opts ''my-sdk/feature/x'' default_commitMessageSalt
       scenario_penv scenario_fs
       (git_all_ok [LogString (CHR 0x08 # ''submodule-auto-sync'' @ [CHR 0x08])] ''my-sdk'')
       (scenario_gitlab [] [] \<lparr>state = ''opened'', pipeline_status = None\<rparr>))
     = Inl DriftDetected
   \<and> list_all (\<lambda>e. \<not> is_reset_or_push e)
        (fst (upsertBranch_older scenario_opts ''my-sdk/feature/x'' default_commitMessageSalt
           scenario_penv scenario_fs
           (git_all_ok [LogString (CHR 0x08 # ''submodule-auto-sync'' @ [CHR 0x08])] ''my-sdk'')
           (scenario_gitlab [] [] \<lparr>state = ''opened'', pipeline_status = None\<rparr>)))"
  using drift_abort_issues_no_reset_and_no_push
      [of scenario_opts "''my-sdk/feature/x''" default_commitMessageSalt scenario_penv
        scenario_fs "git_all_ok [LogString ''fix typo by hand''] ''my-sdk''"
        "scenario_gitlab [] [] \<lparr>state = ''opened'', pipeline_status = None\<rparr>" "''/tmp/w''"]
    drift_abort_issues_no_reset_and_no_push
      [of scenario_opts "''my-sdk/feature/x''" default_commitMessageSalt scenario_penv
        scenario_fs
        "git_all_ok [LogString (CHR 0x08 # ''submodule-auto-sync'' @ [CHR 0x08])] ''my-sdk''"
        "scenario_gitlab [] [] \<lparr>state = ''opened'', pipeline_status = None\<rparr>" "''/tmp/w''"]
    scenario_drift_run scenario_older_drift_run
  by blast

text \<open>
  C4 at a run that throws (the drift error): the workspace is gone afterwards.
\<close>

theorem workspace_removed_witness:
  "readdir_length scenario_fs = 0
   \<and> \<not> dir_exists_after ''/tmp/gitlab-sync-1700000000000'' True
        (fst (upsertBranch scenario_opts ''my-sdk/feature/x'' default_commitMessageSalt
           scenario_penv scenario_fs (git_all_ok [LogString ''fix typo by hand''] ''my-sdk'')
           (scenario_gitlab [] [] \<lparr>state = ''opened'', pipeline_status = None\<rparr>)))"
proof -
  have z: "readdir_length scenario_fs = 0" by (simp add: scenario_fs_def)
  show ?thesis
    using workspace_removed_when_run_returns_or_throws [OF z, of True scenario_opts
        "''my-sdk/feature/x''" default_commitMessageSalt scenario_penv
        "git_all_ok [LogString ''fix typo by hand''] ''my-sdk''"
        "scenario_gitlab [] [] \<lparr>state = ''opened'', pipeline_status = None\<rparr>"] z
    by (simp add: scenario_fs_def)
qed

text \<open>
  C4, on abnormal exit: when the host process ends after the fifth call of
  an otherwise successful run (during the clone), the workspace directory is still there.
\<close>

theorem workspace_left_behind_on_abnormal_exit:
  "5 < length (fst (upsertBranch scenario_opts ''my-sdk/feature/x'' default_commitMessageSalt
           scenario_penv scenario_fs (git_all_ok [] ''my-sdk'')
           (scenario_gitlab [] [] \<lparr>state = ''opened'', pipeline_status = None\<rparr>)))
   \<and> dir_exists_after (TempDir_path scenario_fs) False
        (interrupted_after 5
           (upsertBranch scenario_opts ''my-sdk/feature/x'' default_commitMessageSalt
              scenario_penv scenario_fs (git_all_ok [] ''my-sdk'')
              (scenario_gitlab [] [] \<lparr>state = ''opened'', pipeline_status = None\<rparr>)))"
  using trim_my_sdk
  by (simp add: interrupted_after_def step_defs scenario_defs run_defs Let_def)

section \<open>The sync command and the merge request\<close>

lemma list_all_using_TempDir:
  "list_all P (fst (using_TempDir fs body)) =
     (P (MkdirSync (TempDir_path fs)) \<and> P (ReaddirSync (TempDir_path fs))
      \<and> (readdir_length fs = 0 \<longrightarrow>
            list_all P (fst (body (TempDir_path fs))) \<and> P (RmSync (TempDir_path fs))))"
  by (auto simp: using_TempDir_def TempDir_new_def TempDir_dispose_def run_defs)

lemma upsertBranch_no_mr_mutation:
  "list_all (\<lambda>e. \<not> is_mr_mutation e) (fst (upsertBranch opts src salt penv fs git gitlab))"
  by (auto simp: upsertBranch_def list_all_using_TempDir upsertBranch_body_def
      cloneGitlabRepo_def checkoutGitlabSourceBranch_def resetGitlabRepoBranch_def
      validateIsSubmoduleSyncBranch_def checkoutSubmoduleBranch_def getSubmodulePath_def
      getRepoBranchHeadSHA_def commitGitlabRepoChanges_def pushGitlabRepoChanges_def
      run_all_simps is_mr_mutation_def Let_def split: option.splits sum.splits)

lemma syncBranch_after_upsert:
  assumes "snd (upsertBranch opts (createMRSourceBranchName (githubProjectSubmoduleName opts)
              (githubRepositoryBranch opts)) default_commitMessageSalt penv fs git gitlab) = Inr ()"
    and "MergeRequests_all gitlab = Some mrs"
  shows "syncBranch opts penv fs git gitlab =
     (fst (upsertBranch opts (createMRSourceBranchName (githubProjectSubmoduleName opts)
              (githubRepositoryBranch opts)) default_commitMessageSalt penv fs git gitlab)
        @ MergeRequestsAll (gitlabProjectId opts) (gitlabTargetBranch opts)
            (createMRSourceBranchName (githubProjectSubmoduleName opts) (githubRepositoryBranch opts))
        # (if tl mrs \<noteq> [] then []
           else case mrs of
             existingMr # rest \<Rightarrow>
               [MergeRequestsEdit (gitlabProjectId opts) (iid existingMr) (mergeRequestOptions opts penv)]
           | [] \<Rightarrow>
               [MergeRequestsCreate (gitlabProjectId opts)
                  (createMRSourceBranchName (githubProjectSubmoduleName opts) (githubRepositoryBranch opts))
                  (gitlabTargetBranch opts) (title (mergeRequestOptions opts penv))
                  (mergeRequestOptions opts penv)]),
      if tl mrs \<noteq> [] then Inl MultipleOpenMRs
      else case mrs of
             existingMr # rest \<Rightarrow>
               if MergeRequests_edit gitlab then Inr () else Inl GitlabRequestError
           | [] \<Rightarrow>
               (case MergeRequests_create gitlab of
                  None \<Rightarrow> Inl GitlabRequestError
                | Some newMr \<Rightarrow> if iid newMr = 0 then Inl MRNotCreated else Inr ()))"
  using assms
  by (cases mrs; cases "MergeRequests_create gitlab")
     (simp_all add: syncBranch_def Let_def run_defs)

text \<open>
  C7. When the listing of open merge requests returns more than one, \<^verbatim>\<open>mergeMr\<close> throws
  the multiple-open-MRs error right after the listing, and so does \<^verbatim>\<open>syncBranch\<close> once
  \<^verbatim>\<open>upsertBranch\<close> has returned (before that it does not list); neither run edits,
  creates or merges a merge request.
\<close>

theorem multiple_open_mrs_fail_both_commands:
  assumes "MergeRequests_all gitlab = Some mrs" and "1 < length mrs"
  shows "mergeMr opts penv gitlab =
           ([MergeRequestsAll (gitlabProjectId opts) (gitlabTargetBranch opts)
               (createMRSourceBranchName (githubProjectSubmoduleName opts)
                  (githubRepositoryBranch opts))],
            Inl MultipleOpenMRs)
       \<and> (snd (upsertBranch opts
                 (createMRSourceBranchName (githubProjectSubmoduleName opts)
                    (githubRepositoryBranch opts))
                 default_commitMessageSalt penv fs git gitlab) = Inr ()
            \<longrightarrow> snd (syncBranch opts penv fs git gitlab) = Inl MultipleOpenMRs
                \<and> list_all (\<lambda>e. \<not> is_mr_mutation e) (fst (syncBranch opts penv fs git gitlab)))"
proof -
  from assms(2) have t: "tl mrs \<noteq> []" by (cases mrs) auto
  have m: "mergeMr opts penv gitlab =
           ([MergeRequestsAll (gitlabProjectId opts) (gitlabTargetBranch opts)
               (createMRSourceBranchName (githubProjectSubmoduleName opts)
                  (githubRepositoryBranch opts))],
            Inl MultipleOpenMRs)"
    using assms(1) t by (simp add: mergeMr_def Let_def run_defs)
  have s: "snd (syncBranch opts penv fs git gitlab) = Inl MultipleOpenMRs
           \<and> list_all (\<lambda>e. \<not> is_mr_mutation e) (fst (syncBranch opts penv fs git gitlab))"
    if ok: "snd (upsertBranch opts
                 (createMRSourceBranchName (githubProjectSubmoduleName opts)
                    (githubRepositoryBranch opts))
                 default_commitMessageSalt penv fs git gitlab) = Inr ()"
    using syncBranch_after_upsert[OF ok assms(1)] t upsertBranch_no_mr_mutation
    by (simp add: is_mr_mutation_def)
  show ?thesis using m s by blast
qed

lemma fold_server_apply_no_mutation:
  "list_all (\<lambda>e. \<not> is_mr_mutation e) t \<Longrightarrow> fold server_apply t server = server"
proof (induction t)
  case Nil
  then show ?case by simp
next
  case (Cons e t)
  then have "server_apply e server = server"
    by (cases e) (simp_all add: server_apply_def is_mr_mutation_def)
  with Cons show ?case by simp
qed

lemma fold_max_ge: "a \<le> fold max xs (a::nat)"
  by (induction xs arbitrary: a) (auto intro: order_trans[OF max.cobounded2])

lemma fold_max_member: "x \<in> set xs \<Longrightarrow> x \<le> fold max xs (a::nat)"
proof (induction xs arbitrary: a)
  case Nil
  then show ?case by simp
next
  case (Cons y ys)
  show ?case
  proof (cases "x = y")
    case True
    have "max y a \<le> fold max ys (max y a)" by (rule fold_max_ge)
    then show ?thesis using True by simp
  next
    case False
    with Cons.prems have "x \<in> set ys" by simp
    then show ?thesis using Cons.IH by simp
  qed
qed

lemma fresh_iid_above: "m \<in> set server \<Longrightarrow> mr_iid m < fresh_iid server"
  using fold_max_member[of "mr_iid m" "map mr_iid server" 0]
  by (simp add: fresh_iid_def less_Suc_eq_le)

lemma upsertBranch_reads_user_and_project:
  "Users_showCurrentUser g1 = Users_showCurrentUser g2 \<Longrightarrow> Projects_show g1 = Projects_show g2
   \<Longrightarrow> upsertBranch opts src salt penv fs git g1 = upsertBranch opts src salt penv fs git g2"
proof -
  assume a: "Users_showCurrentUser g1 = Users_showCurrentUser g2" "Projects_show g1 = Projects_show g2"
  have "upsertBranch_body opts src salt penv git g1 = upsertBranch_body opts src salt penv git g2"
    by (rule ext) (simp add: upsertBranch_body_def cloneGitlabRepo_def a)
  then show ?thesis by (simp add: upsertBranch_def)
qed

lemma sync_once_from_none:
  assumes u: "Users_showCurrentUser gitlab = Some user" and p: "Projects_show gitlab = Some projectPath"
    and ok: "snd (upsertBranch opts (createMRSourceBranchName (githubProjectSubmoduleName opts)
              (githubRepositoryBranch opts)) default_commitMessageSalt penv fs git gitlab) = Inr ()"
    and none: "listed server (gitlabProjectId opts) (gitlabTargetBranch opts)
                 (createMRSourceBranchName (githubProjectSubmoduleName opts)
                    (githubRepositoryBranch opts)) = []"
  shows "syncBranch_on_server opts penv fs git user projectPath server =
     server @ [\<lparr>mr_project = gitlabProjectId opts,
                mr_source = createMRSourceBranchName (githubProjectSubmoduleName opts)
                    (githubRepositoryBranch opts),
                mr_target = gitlabTargetBranch opts, mr_iid = fresh_iid server,
                mr_title = title (mergeRequestOptions opts penv),
                mr_description = description (mergeRequestOptions opts penv)\<rparr>]"
proof -
  let ?g = "gitlab_answers user projectPath opts server"
  let ?src = "createMRSourceBranchName (githubProjectSubmoduleName opts) (githubRepositoryBranch opts)"
  have e: "upsertBranch opts ?src default_commitMessageSalt penv fs git ?g
         = upsertBranch opts ?src default_commitMessageSalt penv fs git gitlab"
    by (rule upsertBranch_reads_user_and_project) (simp_all add: gitlab_answers_def u p)
  have ok': "snd (upsertBranch opts ?src default_commitMessageSalt penv fs git ?g) = Inr ()"
    using ok e by simp
  have l: "MergeRequests_all ?g = Some []"
    using none by (simp add: gitlab_answers_def)
  show ?thesis
    using syncBranch_after_upsert[OF ok' l]
      fold_server_apply_no_mutation[OF upsertBranch_no_mr_mutation]
    by (simp add: syncBranch_on_server_def server_apply_def)
qed

lemma sync_once_on_single:
  assumes u: "Users_showCurrentUser gitlab = Some user" and p: "Projects_show gitlab = Some projectPath"
    and ok: "snd (upsertBranch opts (createMRSourceBranchName (githubProjectSubmoduleName opts)
              (githubRepositoryBranch opts)) default_commitMessageSalt penv fs git gitlab) = Inr ()"
    and one: "listed server (gitlabProjectId opts) (gitlabTargetBranch opts)
                 (createMRSourceBranchName (githubProjectSubmoduleName opts)
                    (githubRepositoryBranch opts)) = [m]"
  shows "syncBranch_on_server opts penv fs git user projectPath server =
     map (\<lambda>x. if mr_project x = gitlabProjectId opts \<and> mr_iid x = mr_iid m
               then x\<lparr>mr_title := title (mergeRequestOptions opts penv),
                      mr_description := description (mergeRequestOptions opts penv)\<rparr>
               else x) server"
proof -
  let ?g = "gitlab_answers user projectPath opts server"
  let ?src = "createMRSourceBranchName (githubProjectSubmoduleName opts) (githubRepositoryBranch opts)"
  have e: "upsertBranch opts ?src default_commitMessageSalt penv fs git ?g
         = upsertBranch opts ?src default_commitMessageSalt penv fs git gitlab"
    by (rule upsertBranch_reads_user_and_project) (simp_all add: gitlab_answers_def u p)
  have ok': "snd (upsertBranch opts ?src default_commitMessageSalt penv fs git ?g) = Inr ()"
    using ok e by simp
  have l: "MergeRequests_all ?g = Some [as_merge_request m]"
    using one by (simp add: gitlab_answers_def)
  show ?thesis
    using syncBranch_after_upsert[OF ok' l]
      fold_server_apply_no_mutation[OF upsertBranch_no_mr_mutation]
    by (simp add: syncBranch_on_server_def server_apply_def as_merge_request_def)
qed

lemma sync_twice_from_none:
  assumes u: "Users_showCurrentUser gitlab = Some user" and p: "Projects_show gitlab = Some projectPath"
    and ok: "snd (upsertBranch opts (createMRSourceBranchName (githubProjectSubmoduleName opts)
              (githubRepositoryBranch opts)) default_commitMessageSalt penv fs git gitlab) = Inr ()"
    and none: "listed server (gitlabProjectId opts) (gitlabTargetBranch opts)
                 (createMRSourceBranchName (githubProjectSubmoduleName opts)
                    (githubRepositoryBranch opts)) = []"
  shows "length (listed (syncBranch_on_server opts penv fs git user projectPath server)
            (gitlabProjectId opts) (gitlabTargetBranch opts)
            (createMRSourceBranchName (githubProjectSubmoduleName opts)
               (githubRepositoryBranch opts))) = 1
       \<and> syncBranch_on_server opts penv fs git user projectPath
            (syncBranch_on_server opts penv fs git user projectPath server)
          = syncBranch_on_server opts penv fs git user projectPath server"
proof -
  let ?src = "createMRSourceBranchName (githubProjectSubmoduleName opts) (githubRepositoryBranch opts)"
  let ?new = "\<lparr>mr_project = gitlabProjectId opts, mr_source = ?src,
                mr_target = gitlabTargetBranch opts, mr_iid = fresh_iid server,
                mr_title = title (mergeRequestOptions opts penv),
                mr_description = description (mergeRequestOptions opts penv)\<rparr>"
  let ?once = "syncBranch_on_server opts penv fs git user projectPath server"
  have once: "?once = server @ [?new]"
    by (rule sync_once_from_none[OF u p ok none])
  have l1: "listed ?once (gitlabProjectId opts) (gitlabTargetBranch opts) ?src = [?new]"
    using none by (simp add: once listed_def)
  have old: "\<And>x. x \<in> set server \<Longrightarrow> mr_iid x \<noteq> fresh_iid server"
    using fresh_iid_above by fastforce
  have "syncBranch_on_server opts penv fs git user projectPath ?once =
     map (\<lambda>x. if mr_project x = gitlabProjectId opts \<and> mr_iid x = mr_iid ?new
               then x\<lparr>mr_title := title (mergeRequestOptions opts penv),
                      mr_description := description (mergeRequestOptions opts penv)\<rparr>
               else x) ?once"
    by (rule sync_once_on_single[OF u p ok l1])
  also have "\<dots> = ?once"
    using old by (simp add: once map_idI)
  finally show ?thesis using l1 by simp
qed

lemma is_mr_create_mutation: "is_mr_create e \<Longrightarrow> is_mr_mutation e"
  by (cases e) (simp_all add: is_mr_create_def is_mr_mutation_def)

lemma upsertBranch_no_create:
  "\<not> list_ex is_mr_create (fst (upsertBranch opts src salt penv fs git gitlab))"
  using upsertBranch_no_mr_mutation[of opts src salt penv fs git gitlab] is_mr_create_mutation
  by (auto simp: list_ex_iff list_all_iff)

text \<open>
  C7 at a concrete input: two open merge requests for my-sdk/feature/x into main.
\<close>

theorem multiple_open_mrs_witness:
  "MergeRequests_all (scenario_gitlab [scenario_mr False, scenario_mr True] []
       \<lparr>state = ''merged'', pipeline_status = None\<rparr>) = Some [scenario_mr False, scenario_mr True]
   \<and> 1 < length [scenario_mr False, scenario_mr True]
   \<and> snd (upsertBranch scenario_opts
             (createMRSourceBranchName (githubProjectSubmoduleName scenario_opts)
                (githubRepositoryBranch scenario_opts))
             default_commitMessageSalt scenario_penv scenario_fs (git_all_ok [] ''my-sdk'')
             (scenario_gitlab [scenario_mr False, scenario_mr True] []
                \<lparr>state = ''merged'', pipeline_status = None\<rparr>)) = Inr ()
   \<and> snd (mergeMr scenario_opts scenario_penv
             (scenario_gitlab [scenario_mr False, scenario_mr True] []
                \<lparr>state = ''merged'', pipeline_status = None\<rparr>)) = Inl MultipleOpenMRs
   \<and> snd (syncBranch scenario_opts scenario_penv scenario_fs (git_all_ok [] ''my-sdk'')
             (scenario_gitlab [scenario_mr False, scenario_mr True] []
                \<lparr>state = ''merged'', pipeline_status = None\<rparr>)) = Inl MultipleOpenMRs"
proof -
  let ?g = "scenario_gitlab [scenario_mr False, scenario_mr True] []
              \<lparr>state = ''merged'', pipeline_status = None\<rparr>"
  have a: "MergeRequests_all ?g = Some [scenario_mr False, scenario_mr True]"
    by (simp add: scenario_gitlab_def)
  have b: "1 < length [scenario_mr False, scenario_mr True]" by simp
  have n: "createMRSourceBranchName (githubProjectSubmoduleName scenario_opts)
             (githubRepositoryBranch scenario_opts) = ''my-sdk/feature/x''"
    by (simp add: createMRSourceBranchName_def scenario_opts_def)
  have ok: "snd (upsertBranch scenario_opts
             (createMRSourceBranchName (githubProjectSubmoduleName scenario_opts)
                (githubRepositoryBranch scenario_opts))
             default_commitMessageSalt scenario_penv scenario_fs (git_all_ok [] ''my-sdk'') ?g) = Inr ()"
    unfolding n by (rule scenario_clean_run)
  show ?thesis
    using multiple_open_mrs_fail_both_commands [OF a b, of scenario_opts scenario_penv
        scenario_fs "git_all_ok [] ''my-sdk''"] a ok
    by simp
qed

text \<open>
  C8. After \<^verbatim>\<open>upsertBranch\<close> has returned: with exactly one open merge request
  \<^verbatim>\<open>syncBranch\<close> lists and then edits that one, passing the title, the description and
  \<^verbatim>\<open>removeSourceBranch: true\<close>; with none it lists and then creates one with the same
  options; a create call occurs only when the listing was empty. Against a GitLab that had
  no open merge request for the pair, a second run with the same inputs changes nothing:
  there is one merge request after it, the one the first run created.
\<close>

theorem syncBranch_edits_the_one_or_creates_when_none:
  assumes "Users_showCurrentUser gitlab = Some user"
    and "Projects_show gitlab = Some projectPath"
    and "snd (upsertBranch opts
               (createMRSourceBranchName (githubProjectSubmoduleName opts)
                  (githubRepositoryBranch opts))
               default_commitMessageSalt penv fs git gitlab) = Inr ()"
    and "MergeRequests_all gitlab = Some mrs"
  shows "(mrs = [mr] \<longrightarrow>
            fst (syncBranch opts penv fs git gitlab) =
              fst (upsertBranch opts
                     (createMRSourceBranchName (githubProjectSubmoduleName opts)
                        (githubRepositoryBranch opts))
                     default_commitMessageSalt penv fs git gitlab)
                @ [MergeRequestsAll (gitlabProjectId opts) (gitlabTargetBranch opts)
                     (createMRSourceBranchName (githubProjectSubmoduleName opts)
                        (githubRepositoryBranch opts)),
                   MergeRequestsEdit (gitlabProjectId opts) (iid mr)
                     \<lparr>removeSourceBranch = True,
                      title = fst (createGitlabMergeRequestInfo opts penv),
                      description = snd (createGitlabMergeRequestInfo opts penv)\<rparr>])
       \<and> (mrs = [] \<longrightarrow>
            fst (syncBranch opts penv fs git gitlab) =
              fst (upsertBranch opts
                     (createMRSourceBranchName (githubProjectSubmoduleName opts)
                        (githubRepositoryBranch opts))
                     default_commitMessageSalt penv fs git gitlab)
                @ [MergeRequestsAll (gitlabProjectId opts) (gitlabTargetBranch opts)
                     (createMRSourceBranchName (githubProjectSubmoduleName opts)
                        (githubRepositoryBranch opts)),
                   MergeRequestsCreate (gitlabProjectId opts)
                     (createMRSourceBranchName (githubProjectSubmoduleName opts)
                        (githubRepositoryBranch opts))
                     (gitlabTargetBranch opts) (fst (createGitlabMergeRequestInfo opts penv))
                     \<lparr>removeSourceBranch = True,
                      title = fst (createGitlabMergeRequestInfo opts penv),
                      description = snd (createGitlabMergeRequestInfo opts penv)\<rparr>])
       \<and> (list_ex is_mr_create (fst (syncBranch opts penv fs git gitlab)) \<longrightarrow> mrs = [])
       \<and> (listed server (gitlabProjectId opts) (gitlabTargetBranch opts)
               (createMRSourceBranchName (githubProjectSubmoduleName opts)
                  (githubRepositoryBranch opts)) = [] \<longrightarrow>
            length (listed
                      (syncBranch_on_server opts penv fs git user projectPath
                         (syncBranch_on_server opts penv fs git user projectPath server))
                      (gitlabProjectId opts) (gitlabTargetBranch opts)
                      (createMRSourceBranchName (githubProjectSubmoduleName opts)
                         (githubRepositoryBranch opts))) = 1
            \<and> syncBranch_on_server opts penv fs git user projectPath
                 (syncBranch_on_server opts penv fs git user projectPath server)
               = syncBranch_on_server opts penv fs git user projectPath server)"
proof -
  note sync = syncBranch_after_upsert[OF assms(3) assms(4)]
  have edit: "mrs = [mr] \<longrightarrow>
            fst (syncBranch opts penv fs git gitlab) =
              fst (upsertBranch opts
                     (createMRSourceBranchName (githubProjectSubmoduleName opts)
                        (githubRepositoryBranch opts))
                     default_commitMessageSalt penv fs git gitlab)
                @ [MergeRequestsAll (gitlabProjectId opts) (gitlabTargetBranch opts)
                     (createMRSourceBranchName (githubProjectSubmoduleName opts)
                        (githubRepositoryBranch opts)),
                   MergeRequestsEdit (gitlabProjectId opts) (iid mr)
                     \<lparr>removeSourceBranch = True,
                      title = fst (createGitlabMergeRequestInfo opts penv),
                      description = snd (createGitlabMergeRequestInfo opts penv)\<rparr>]"
    using sync by (simp add: mergeRequestOptions_def)
  have create: "mrs = [] \<longrightarrow>
            fst (syncBranch opts penv fs git gitlab) =
              fst (upsertBranch opts
                     (createMRSourceBranchName (githubProjectSubmoduleName opts)
                        (githubRepositoryBranch opts))
                     default_commitMessageSalt penv fs git gitlab)
                @ [MergeRequestsAll (gitlabProjectId opts) (gitlabTargetBranch opts)
                     (createMRSourceBranchName (githubProjectSubmoduleName opts)
                        (githubRepositoryBranch opts)),
                   MergeRequestsCreate (gitlabProjectId opts)
                     (createMRSourceBranchName (githubProjectSubmoduleName opts)
                        (githubRepositoryBranch opts))
                     (gitlabTargetBranch opts) (fst (createGitlabMergeRequestInfo opts penv))
                     \<lparr>removeSourceBranch = True,
                      title = fst (createGitlabMergeRequestInfo opts penv),
                      description = snd (createGitlabMergeRequestInfo opts penv)\<rparr>]"
    using sync by (simp add: mergeRequestOptions_def)
  have only: "list_ex is_mr_create (fst (syncBranch opts penv fs git gitlab)) \<longrightarrow> mrs = []"
    using sync upsertBranch_no_create[of opts _ default_commitMessageSalt penv fs git gitlab]
    by (cases mrs) (auto simp: is_mr_create_def split: if_splits)
  have twice: "listed server (gitlabProjectId opts) (gitlabTargetBranch opts)
               (createMRSourceBranchName (githubProjectSubmoduleName opts)
                  (githubRepositoryBranch opts)) = [] \<longrightarrow>
            length (listed
                      (syncBranch_on_server opts penv fs git user projectPath
                         (syncBranch_on_server opts penv fs git user projectPath server))
                      (gitlabProjectId opts) (gitlabTargetBranch opts)
                      (createMRSourceBranchName (githubProjectSubmoduleName opts)
                         (githubRepositoryBranch opts))) = 1
            \<and> syncBranch_on_server opts penv fs git user projectPath
                 (syncBranch_on_server opts penv fs git user projectPath server)
               = syncBranch_on_server opts penv fs git user projectPath server"
    using sync_twice_from_none[OF assms(1) assms(2) assms(3), of server] by simp
  show ?thesis using edit create only twice by blast
qed

text \<open>
  C8 at a concrete input: merge request 7 is open for my-sdk/feature/x into main and is
  edited; started on an empty GitLab, two runs leave one merge request.
\<close>

theorem syncBranch_edits_the_one_witness:
  "Users_showCurrentUser (scenario_gitlab [scenario_mr False] []
       \<lparr>state = ''opened'', pipeline_status = None\<rparr>) = Some scenario_user
   \<and> Projects_show (scenario_gitlab [scenario_mr False] []
       \<lparr>state = ''opened'', pipeline_status = None\<rparr>) = Some ''group/project''
   \<and> snd (upsertBranch scenario_opts
             (createMRSourceBranchName (githubProjectSubmoduleName scenario_opts)
                (githubRepositoryBranch scenario_opts))
             default_commitMessageSalt scenario_penv scenario_fs (git_all_ok [] ''my-sdk'')
             (scenario_gitlab [scenario_mr False] []
                \<lparr>state = ''opened'', pipeline_status = None\<rparr>)) = Inr ()
   \<and> MergeRequests_all (scenario_gitlab [scenario_mr False] []
       \<lparr>state = ''opened'', pipeline_status = None\<rparr>) = Some [scenario_mr False]
   \<and> listed [] (gitlabProjectId scenario_opts) (gitlabTargetBranch scenario_opts)
        (createMRSourceBranchName (githubProjectSubmoduleName scenario_opts)
           (githubRepositoryBranch scenario_opts)) = []
   \<and> last (fst (syncBranch scenario_opts scenario_penv scenario_fs (git_all_ok [] ''my-sdk'')
             (scenario_gitlab [scenario_mr False] []
                \<lparr>state = ''opened'', pipeline_status = None\<rparr>)))
      = MergeRequestsEdit ''123'' 7
          \<lparr>removeSourceBranch = True,
           title = fst (createGitlabMergeRequestInfo scenario_opts scenario_penv),
           description = snd (createGitlabMergeRequestInfo scenario_opts scenario_penv)\<rparr>
   \<and> length (listed
        (syncBranch_on_server scenario_opts scenario_penv scenario_fs (git_all_ok [] ''my-sdk'')
           scenario_user ''group/project''
           (syncBranch_on_server scenario_opts scenario_penv scenario_fs
              (git_all_ok [] ''my-sdk'') scenario_user ''group/project'' []))
        (gitlabProjectId scenario_opts) (gitlabTargetBranch scenario_opts)
        (createMRSourceBranchName (githubProjectSubmoduleName scenario_opts)
           (githubRepositoryBranch scenario_opts))) = 1"
proof -
  let ?g = "scenario_gitlab [scenario_mr False] [] \<lparr>state = ''opened'', pipeline_status = None\<rparr>"
  have u: "Users_showCurrentUser ?g = Some scenario_user"
    and p: "Projects_show ?g = Some ''group/project''"
    and a: "MergeRequests_all ?g = Some [scenario_mr False]"
    by (simp_all add: scenario_gitlab_def)
  have n: "createMRSourceBranchName (githubProjectSubmoduleName scenario_opts)
             (githubRepositoryBranch scenario_opts) = ''my-sdk/feature/x''"
    by (simp add: createMRSourceBranchName_def scenario_opts_def)
  have ok: "snd (upsertBranch scenario_opts
             (createMRSourceBranchName (githubProjectSubmoduleName scenario_opts)
                (githubRepositoryBranch scenario_opts))
             default_commitMessageSalt scenario_penv scenario_fs (git_all_ok [] ''my-sdk'') ?g) = Inr ()"
    unfolding n by (rule scenario_clean_run)
  have e: "listed [] (gitlabProjectId scenario_opts) (gitlabTargetBranch scenario_opts)
        (createMRSourceBranchName (githubProjectSubmoduleName scenario_opts)
           (githubRepositoryBranch scenario_opts)) = []"
    by (simp add: listed_def)
  have i: "iid (scenario_mr False) = 7" "gitlabProjectId scenario_opts = ''123''"
    by (simp_all add: scenario_mr_def scenario_opts_def)
  note t = syncBranch_edits_the_one_or_creates_when_none [OF u p ok a, of "scenario_mr False" "[]"]
  from t have "last (fst (syncBranch scenario_opts scenario_penv scenario_fs
        (git_all_ok [] ''my-sdk'') ?g))
      = MergeRequestsEdit (gitlabProjectId scenario_opts) (iid (scenario_mr False))
          \<lparr>removeSourceBranch = True,
           title = fst (createGitlabMergeRequestInfo scenario_opts scenario_penv),
           description = snd (createGitlabMergeRequestInfo scenario_opts scenario_penv)\<rparr>"
    by simp
  then have c1: "last (fst (syncBranch scenario_opts scenario_penv scenario_fs
        (git_all_ok [] ''my-sdk'') ?g))
      = MergeRequestsEdit ''123'' 7
          \<lparr>removeSourceBranch = True,
           title = fst (createGitlabMergeRequestInfo scenario_opts scenario_penv),
           description = snd (createGitlabMergeRequestInfo scenario_opts scenario_penv)\<rparr>"
    by (simp only: i)
  from t e have c4: "length (listed
        (syncBranch_on_server scenario_opts scenario_penv scenario_fs (git_all_ok [] ''my-sdk'')
           scenario_user ''group/project''
           (syncBranch_on_server scenario_opts scenario_penv scenario_fs
              (git_all_ok [] ''my-sdk'') scenario_user ''group/project'' []))
        (gitlabProjectId scenario_opts) (gitlabTargetBranch scenario_opts)
        (createMRSourceBranchName (githubProjectSubmoduleName scenario_opts)
           (githubRepositoryBranch scenario_opts))) = 1"
    by blast
  show ?thesis
    using u p ok a e c1 c4 by blast
qed

end
